theory Spec2Isabelle
  imports Main "HOL-Library.Sublist"
begin

section \<open>JavaScript values\<close>

text \<open>
  The options object of \<open>src/index.js\<close> is dynamically typed: the code branches on
  truthiness, on \<open>typeof\<close> and on \<open>Array.isArray\<close>. The values it can meet are
  modelled by \<open>jsval\<close>. Numbers are restricted to integers and there are no function
  values; an object is the list of its own enumerable properties in the order
  \<open>Object.keys\<close> enumerates them, which is the order of insertion as long as no key
  is an array index.
\<close>

datatype jsval =
    Undefined
  | Null
  | JBool bool
  | JNum int
  | JStr string
  | JArr "jsval list"
  | JObj "(string \<times> jsval) list"

datatype js_type = TUndefined | TObject | TBoolean | TNumber | TString

fun typeof :: "jsval \<Rightarrow> js_type" where
  "typeof Undefined = TUndefined"
| "typeof Null = TObject"
| "typeof (JBool b) = TBoolean"
| "typeof (JNum n) = TNumber"
| "typeof (JStr s) = TString"
| "typeof (JArr xs) = TObject"
| "typeof (JObj kvs) = TObject"

text \<open>\<open>Boolean(v)\<close>: the falsy values are undefined, null, false, 0 and the empty string.\<close>

fun truthy :: "jsval \<Rightarrow> bool" where
  "truthy Undefined = False"
| "truthy Null = False"
| "truthy (JBool b) = b"
| "truthy (JNum n) = (n \<noteq> 0)"
| "truthy (JStr s) = (s \<noteq> [])"
| "truthy (JArr xs) = True"
| "truthy (JObj kvs) = True"

text \<open>\<open>a || b\<close> on values.\<close>

definition js_or :: "jsval \<Rightarrow> jsval \<Rightarrow> jsval" where
  "js_or a b = (if truthy a then a else b)"

text \<open>
  \<open>s.split(sep)\<close> for a one-character separator: the pieces between the separators,
  empty pieces kept, so that \<open>''''.split('','')\<close> is the one-element list of the empty
  string.
\<close>

fun split :: "char \<Rightarrow> string \<Rightarrow> string list" where
  "split sep [] = [[]]"
| "split sep (c # cs) =
     (if c = sep then [] # split sep cs
      else (case split sep cs of
              [] \<Rightarrow> [[c]]
            | w # ws \<Rightarrow> (c # w) # ws))"

text \<open>\<open>xs.join(sep)\<close> on strings, used to state what \<open>split\<close> computes.\<close>

fun join :: "char \<Rightarrow> string list \<Rightarrow> string" where
  "join sep [] = []"
| "join sep [w] = w"
| "join sep (w # v # ws) = w @ sep # join sep (v # ws)"

text \<open>Decimal digits of a natural number, as \<open>String(n)\<close> prints them.\<close>

function show_nat :: "nat \<Rightarrow> string" where
  "show_nat n =
     (if n < 10 then [char_of (48 + n)]
      else show_nat (n div 10) @ [char_of (48 + n mod 10)])"
  by pat_completeness auto
termination
  by (relation "measure id") auto

definition show_int :: "int \<Rightarrow> string" where
  "show_int i = (if i < 0 then CHR ''-'' # show_nat (nat (- i)) else show_nat (nat i))"

text \<open>
  \<open>String(v)\<close>, the conversion a template literal applies. An array prints its elements
  joined by commas, with undefined and null elements printed as nothing. A number is
  printed in full, as JavaScript prints the integers below \<open>10^21\<close> in absolute value;
  the exponent form of larger numbers is not modelled.
\<close>

fun js_to_string :: "jsval \<Rightarrow> string" where
  "js_to_string Undefined = ''undefined''"
| "js_to_string Null = ''null''"
| "js_to_string (JBool b) = (if b then ''true'' else ''false'')"
| "js_to_string (JNum n) = show_int n"
| "js_to_string (JStr s) = s"
| "js_to_string (JArr xs) =
     join CHR '','' (map (\<lambda>x. if x = Undefined \<or> x = Null then [] else js_to_string x) xs)"
| "js_to_string (JObj kvs) = ''[object Object]''"

text \<open>
  The own enumerable properties of a value, in enumeration order: those of an object,
  the indices of an array or of a string, none for the other primitives.
\<close>

fun own_props :: "jsval \<Rightarrow> (string \<times> jsval) list" where
  "own_props (JObj kvs) = kvs"
| "own_props (JArr xs) = zip (map show_nat [0..<length xs]) xs"
| "own_props (JStr s) = zip (map show_nat [0..<length s]) (map (\<lambda>c. JStr [c]) s)"
| "own_props v = []"

text \<open>
  \<open>o[k] = v\<close> on a property list: an existing key keeps its place, a new one goes
  last (a new key that is an array index would be enumerated before the others; the
  keys written here are output paths and option names).
\<close>

fun set_property :: "'k \<Rightarrow> 'v \<Rightarrow> ('k \<times> 'v) list \<Rightarrow> ('k \<times> 'v) list" where
  "set_property k v [] = [(k, v)]"
| "set_property k v ((k', v') # kvs) =
     (if k = k' then (k, v) # kvs else (k', v') # set_property k v kvs)"

text \<open>\<open>{...base, ...v}\<close>: the properties of \<open>v\<close> override those written before the spread.\<close>

definition spread :: "(string \<times> jsval) list \<Rightarrow> jsval \<Rightarrow> (string \<times> jsval) list" where
  "spread base v = foldl (\<lambda>acc (k, x). set_property k x acc) base (own_props v)"

section \<open>Errors\<close>

text \<open>
  A thrown value is an error object: its class, its \<open>code\<close> property and its
  \<open>message\<close>. \<open>new Error(m)\<close>, \<open>new BiliError(m)\<close> and the runtime's type errors
  carry no code.
\<close>

datatype err_class = PlainError | TypeError | BiliError

datatype error = Thrown (err_class: err_class) (err_code: jsval) (err_message: string)

definition new_Error :: "string \<Rightarrow> error" where
  "new_Error m = Thrown PlainError Undefined m"

definition new_BiliError :: "string \<Rightarrow> error" where
  "new_BiliError m = Thrown BiliError Undefined m"

definition new_TypeError :: "string \<Rightarrow> error" where
  "new_TypeError m = Thrown TypeError Undefined m"

text \<open>\<open>xs.map(f)\<close> where \<open>f\<close> may throw: the first exception ends the traversal.\<close>

fun js_map :: "('a \<Rightarrow> error + 'b) \<Rightarrow> 'a list \<Rightarrow> error + 'b list" where
  "js_map f [] = Inr []"
| "js_map f (x # xs) =
     (case f x of
        Inl e \<Rightarrow> Inl e
      | Inr y \<Rightarrow> (case js_map f xs of Inl e \<Rightarrow> Inl e | Inr ys \<Rightarrow> Inr (y # ys)))"

text \<open>\<open>Object.keys(v)\<close>: a type error on null and undefined.\<close>

fun Object_keys :: "jsval \<Rightarrow> error + string list" where
  "Object_keys Undefined = Inl (new_TypeError ''Cannot convert undefined or null to object'')"
| "Object_keys Null = Inl (new_TypeError ''Cannot convert undefined or null to object'')"
| "Object_keys v = Inr (map fst (own_props v))"

section \<open>The path module\<close>

text \<open>
  The functions of Node's \<open>path\<close> module that the source calls, in their POSIX flavour
  (separator \<open>/\<close>). \<open>normalizeString\<close> drops empty and \<open>.\<close> segments and lets a
  \<open>..\<close> segment remove the segment before it; above the root \<open>..\<close> is kept only when
  the path is relative.
\<close>

fun normalize_step :: "bool \<Rightarrow> string list \<Rightarrow> string \<Rightarrow> string list" where
  "normalize_step allowAboveRoot acc s =
     (if s = [] \<or> s = ''.'' then acc
      else if s = ''..'' then
        (if acc \<noteq> [] \<and> last acc \<noteq> ''..'' then butlast acc
         else if allowAboveRoot then acc @ [''..'']
         else acc)
      else acc @ [s])"

definition normalizeString :: "string \<Rightarrow> bool \<Rightarrow> string" where
  "normalizeString p allowAboveRoot =
     join CHR ''/'' (foldl (normalize_step allowAboveRoot) [] (split CHR ''/'' p))"

text \<open>
  \<open>path.resolve(...args)\<close> reads its arguments from the right, then the working
  directory of the process, until one of them is absolute; empty arguments are skipped.
  The loop below takes them in that order and returns the joined path with the flag
  \<open>resolvedAbsolute\<close>.
\<close>

fun resolve_loop :: "string list \<Rightarrow> string \<Rightarrow> string \<times> bool" where
  "resolve_loop [] resolvedPath = (resolvedPath, False)"
| "resolve_loop (p # ps) resolvedPath =
     (if p = [] then resolve_loop ps resolvedPath
      else if prefix ''/'' p then (p @ ''/'' @ resolvedPath, True)
      else resolve_loop ps (p @ ''/'' @ resolvedPath))"

definition path_resolve :: "string \<Rightarrow> string list \<Rightarrow> string" where
  "path_resolve process_cwd args =
     (case resolve_loop (rev args @ [process_cwd]) [] of
        (resolvedPath, resolvedAbsolute) \<Rightarrow>
          (let normalized = normalizeString resolvedPath (\<not> resolvedAbsolute)
           in if resolvedAbsolute then CHR ''/'' # normalized
              else if normalized \<noteq> [] then normalized
              else ''.''))"

text \<open>
  \<open>path.relative(from, to)\<close>: both paths are resolved, the segments they share from the
  root are dropped, and the result climbs out of what is left of \<open>from\<close> and descends
  into what is left of \<open>to\<close>.
\<close>

fun strip_common :: "string list \<Rightarrow> string list \<Rightarrow> string list \<times> string list" where
  "strip_common (x # xs) (y # ys) = (if x = y then strip_common xs ys else (x # xs, y # ys))"
| "strip_common xs ys = (xs, ys)"

definition path_segments :: "string \<Rightarrow> string list" where
  "path_segments p = filter (\<lambda>s. s \<noteq> []) (split CHR ''/'' p)"

definition path_relative :: "string \<Rightarrow> string \<Rightarrow> string \<Rightarrow> string" where
  "path_relative process_cwd frm to =
     (if frm = to then []
      else (case strip_common (path_segments (path_resolve process_cwd [frm]))
                              (path_segments (path_resolve process_cwd [to])) of
              (up, down) \<Rightarrow> join CHR ''/'' (replicate (length up) ''..'' @ down)))"

text \<open>The last segment of a path, trailing separators ignored.\<close>

definition last_segment :: "string \<Rightarrow> string" where
  "last_segment p =
     rev (takeWhile (\<lambda>c. c \<noteq> CHR ''/'') (dropWhile (\<lambda>c. c = CHR ''/'') (rev p)))"

text \<open>
  \<open>path.extname(p)\<close>: from the last dot of the last segment to its end; empty when
  there is no dot, when the only dot is the first character, and for the segment \<open>..\<close>.
\<close>

definition path_extname :: "string \<Rightarrow> string" where
  "path_extname p =
     (let b = last_segment p;
          e = rev (takeWhile (\<lambda>c. c \<noteq> CHR ''.'') (rev b))
      in if CHR ''.'' \<notin> set b then []
         else if take (length b - length e - 1) b = [] \<or> b = ''..'' then []
         else CHR ''.'' # e)"

text \<open>
  \<open>path.basename(p, ext)\<close>: the last segment, without \<open>ext\<close> when it ends with it and
  is longer. Node returns the empty string when \<open>ext\<close> is the whole of \<open>p\<close>, and keeps
  the trailing separators when \<open>ext\<close> is longer than the last segment and ends with it.
\<close>

definition path_basename :: "string \<Rightarrow> string \<Rightarrow> string" where
  "path_basename p ext =
     (let b = last_segment p
      in if ext \<noteq> [] \<and> length ext \<le> length p then
           (if ext = p then []
            else if suffix ext b \<and> ext \<noteq> b then take (length b - length ext) b
            else if strict_suffix b ext then b @ takeWhile (\<lambda>c. c = CHR ''/'') (rev p)
            else b)
         else b)"

section \<open>Terminal colours\<close>

text \<open>
  \<open>chalk.green\<close> and \<open>chalk.dim\<close> wrap a non-empty text in an ANSI escape pair when
  colours are enabled, and return it as it is otherwise.
\<close>

definition ansi :: "string \<Rightarrow> string" where
  "ansi n = char_of (27 :: nat) # CHR ''['' # n @ ''m''"

definition chalk_green :: "bool \<Rightarrow> string \<Rightarrow> string" where
  "chalk_green enabled s = (if enabled \<and> s \<noteq> [] then ansi ''32'' @ s @ ansi ''39'' else s)"

definition chalk_dim :: "bool \<Rightarrow> string \<Rightarrow> string" where
  "chalk_dim enabled s = (if enabled \<and> s \<noteq> [] then ansi ''2'' @ s @ ansi ''22'' else s)"

section \<open>Filename templating\<close>

text \<open>
  Modelled from the spec: \<open>template\<close> (the module \<open>./template\<close> is imported by
  \<open>src/index.js\<close> and is not among the sources). The pattern is read from the left;
  where a token \<open>[key]\<close> of the mapping starts, its value is written and the token
  skipped; every other character, a bracket of an unknown token included, is copied.
\<close>

fun template :: "string \<Rightarrow> (string \<times> string) list \<Rightarrow> string" where
  "template [] subs = []"
| "template (c # cs) subs =
     (case find (\<lambda>(k, v). prefix (CHR ''['' # k @ '']'') (c # cs)) subs of
        Some (k, v) \<Rightarrow> v @ template (drop (length k + 1) cs) subs
      | None \<Rightarrow> c # template cs subs)"

section \<open>Options\<close>

text \<open>
  \<open>this.options\<close>. The options the code uses at one type only are typed fields: the
  output directory, the filename pattern and the project directory are strings, the
  output name and the transpiler name are strings or absent. Every other key
  (\<open>input\<close>, \<open>format\<close>, \<open>formats\<close>, \<open>plugin\<close>, \<open>external\<close>, \<open>globals\<close>,
  \<open>map\<close>, \<open>watch\<close>, the option bags of the plugins and so on) is looked up in
  \<open>props\<close>, where a missing key reads as undefined.
\<close>

record build_options =
  outDir :: string
  filename :: string
  cwd :: string
  name :: "string option"
  js :: "string option"
  props :: "string \<Rightarrow> jsval"

fun opt_value :: "string option \<Rightarrow> jsval" where
  "opt_value None = Undefined"
| "opt_value (Some s) = JStr s"

text \<open>\<open>this.options[key]\<close> for a computed key.\<close>

definition get_option :: "build_options \<Rightarrow> string \<Rightarrow> jsval" where
  "get_option opts key =
     (if key = ''outDir'' then JStr (outDir opts)
      else if key = ''filename'' then JStr (filename opts)
      else if key = ''cwd'' then JStr (cwd opts)
      else if key = ''name'' then opt_value (name opts)
      else if key = ''js'' then opt_value (js opts)
      else props opts key)"

text \<open>\<open>getArrayOption\<close> (lines 80-84).\<close>

definition getArrayOption :: "build_options \<Rightarrow> string \<Rightarrow> jsval" where
  "getArrayOption opts nm =
     (let option = js_or (get_option opts nm) (get_option opts (nm @ ''s''))
      in case option of
           JStr s \<Rightarrow> JArr (map JStr (split CHR '','' s))
         | _ \<Rightarrow> option)"

section \<open>Output file names\<close>

text \<open>
  \<open>getSuffix\<close> (lines 377-392). The \<open>switch\<close> compares with strict equality, so a
  value that is not a string falls to the default branch.
\<close>

fun getSuffix :: "jsval \<Rightarrow> error + string" where
  "getSuffix (JStr f) =
     (if f = ''cjs'' then Inr ([] @ ''.cjs'')
      else if f = ''umd'' then Inr []
      else if f = ''es'' then Inr ([] @ ''.m'')
      else Inl (new_Error ''unsupported format''))"
| "getSuffix v = Inl (new_Error ''unsupported format'')"

text \<open>\<open>getNameFromInput\<close> (lines 394-396).\<close>

definition getNameFromInput :: "string \<Rightarrow> string" where
  "getNameFromInput inp = path_basename inp (path_extname inp)"

text \<open>
  \<open>getFilename\<close> (lines 398-405). The explicit name is used when it is truthy, that is
  present and not empty.
\<close>

definition getFilename :: "string \<Rightarrow> string \<Rightarrow> string \<Rightarrow> bool \<Rightarrow> string option \<Rightarrow> error + string" where
  "getFilename inp fmt pattern compressing nm =
     (let nm' = (if truthy (opt_value nm) then the nm else getNameFromInput inp)
      in case getSuffix (JStr fmt) of
           Inl e \<Rightarrow> Inl e
         | Inr sfx \<Rightarrow>
             (let res = template pattern [(''name'', nm'), (''suffix'', sfx)]
              in Inr (if compressing
                      then path_basename res (path_extname res) @ ''.min'' @ path_extname res
                      else res)))"

section \<open>Engine configurations and the environment\<close>

text \<open>
  A stage of the plugin pipeline, named after the factory that builds it; the plugin
  objects themselves belong to the engine. \<open>UserPlugin\<close> carries what the user's
  plugin option produced, \<open>JsPlugin\<close> the name of the transpiler, \<open>Collector\<close> the
  output path under which the stage named \<open>bili\<close> records the generated code.
\<close>

datatype plugin =
    Hashbang
  | UserPlugin jsval
  | BabelForBuble
  | JsPlugin string
  | Commonjs
  | NodeResolve
  | Json
  | Uglify
  | Alias jsval
  | Replace jsval
  | Collector string
  | EnvReplace jsval

record inputOptions =
  input :: string
  external :: "string list"
  plugins :: "plugin list"

record outputOptions =
  format :: string
  globals :: jsval
  "file" :: string
  exports :: jsval
  sourcemap :: bool

record config =
  inputOptions :: inputOptions
  outputOptions :: outputOptions

text \<open>
  One run of the engine on a configuration, \<open>rollup(inputOptions)\<close> followed by
  \<open>bundle.write(outputOptions)\<close> or \<open>bundle.generate(outputOptions)\<close>: it is rejected
  before any code is generated, or it generates code, hands it once to the
  \<open>ongenerate\<close> hook of the plugins, and then settles, with an error when the write
  failed.
\<close>

datatype engine_outcome = Rejected error | Generated string "error option"

text \<open>
  What the build reads from outside the module: the working directory of the process,
  whether the terminal has colours, the manifest reader (\<open>res.pkg\<close> of \<open>read-pkg-up\<close>
  for a directory), the glob resolver, the module loader (a loaded plugin module is a
  factory from an option bag to a plugin), the bundling engine and the documentation
  reference of \<open>./handle-error\<close>, which is imported and not among the sources.
\<close>

record env =
  process_cwd :: string
  colors :: bool
  readPkg :: "string \<Rightarrow> error + jsval"
  globby :: "jsval \<Rightarrow> string \<Rightarrow> error + string list"
  require :: "string \<Rightarrow> error + (jsval \<Rightarrow> error + jsval)"
  engine :: "inputOptions \<Rightarrow> outputOptions \<Rightarrow> bool \<Rightarrow> engine_outcome"
  getDocRef :: "string \<Rightarrow> string \<Rightarrow> string"

text \<open>\<open>resolveCwd\<close> and \<open>relativeToProcessCwd\<close> (lines 86-92).\<close>

definition resolveCwd :: "env \<Rightarrow> build_options \<Rightarrow> string list \<Rightarrow> string" where
  "resolveCwd env opts args = path_resolve (process_cwd env) (cwd opts # args)"

definition relativeToProcessCwd :: "env \<Rightarrow> build_options \<Rightarrow> string list \<Rightarrow> string" where
  "relativeToProcessCwd env opts args =
     path_relative (process_cwd env) (process_cwd env) (resolveCwd env opts args)"

section \<open>Loading plugins\<close>

text \<open>\<open>handleLoadPluginError\<close> (lines 448-454) always throws; this is the error it throws.\<close>

definition plugin_missing_message :: "env \<Rightarrow> string \<Rightarrow> string" where
  "plugin_missing_message env moduleName =
     ''Cannot find plugin '' @ [char_of (34 :: nat)] @ moduleName @ [char_of (34 :: nat)]
       @ '' in current directory!'' @ [char_of (10 :: nat)]
       @ chalk_dim (colors env)
           (''You may run '' @ [char_of (34 :: nat)] @ ''npm install -D '' @ moduleName
              @ [char_of (34 :: nat)] @ '' to install it.'')"

definition handleLoadPluginError :: "env \<Rightarrow> string \<Rightarrow> error \<Rightarrow> error" where
  "handleLoadPluginError env moduleName err =
     (if err_code err = JStr ''MODULE_NOT_FOUND'' \<and> sublist moduleName (err_message err)
      then new_BiliError (plugin_missing_message env moduleName)
      else err)"

text \<open>\<open>localRequire\<close> (lines 444-446).\<close>

definition localRequire :: "env \<Rightarrow> string \<Rightarrow> error + (jsval \<Rightarrow> error + jsval)" where
  "localRequire env nm = require env (path_resolve (process_cwd env) [''node_modules'', nm])"

text \<open>\<open>getJsPlugin\<close> (lines 434-442).\<close>

definition getJsPlugin :: "env \<Rightarrow> string \<Rightarrow> error + (jsval \<Rightarrow> error + jsval)" where
  "getJsPlugin env nm =
     (let req = (if nm = ''babel'' \<or> nm = ''buble'' then require env else localRequire env);
          moduleName = ''rollup-plugin-'' @ nm
      in case req moduleName of
           Inl err \<Rightarrow> Inl (handleLoadPluginError env moduleName err)
         | Inr factory \<Rightarrow> Inr factory)"

text \<open>
  \<open>filename.replace(/\.[^.]+$/, ''.css'')\<close>: the leftmost dot that is followed, up to
  the end of the string, by at least one character and by no other dot.
\<close>

fun replace_extension :: "string \<Rightarrow> string \<Rightarrow> string" where
  "replace_extension [] new = []"
| "replace_extension (c # cs) new =
     (if c = CHR ''.'' \<and> cs \<noteq> [] \<and> CHR ''.'' \<notin> set cs then new
      else c # replace_extension cs new)"

text \<open>
  The callback of \<open>plugins.map\<close> in \<open>loadUserPlugins\<close> (lines 97-129). A plugin that is
  an object is returned as it is. Otherwise its name is built into the module name,
  the \<open>try\<close> block covers both loading the module and calling the factory, and every
  exception of the block goes through \<open>handleLoadPluginError\<close>.
\<close>

definition loadUserPlugin :: "env \<Rightarrow> build_options \<Rightarrow> string \<Rightarrow> jsval \<Rightarrow> error + jsval" where
  "loadUserPlugin env opts fname pluginName =
     (if typeof pluginName = TObject then Inr pluginName
      else
        (let pluginOptions = get_option opts (js_to_string pluginName);
             pluginOptions' =
               (if pluginName = JStr ''vue'' then
                  JObj (spread
                    [(''css'', JStr (path_resolve (process_cwd env)
                        [outDir opts, replace_extension fname ''.css'']))]
                    pluginOptions)
                else if pluginName = JStr ''postcss'' then
                  JObj (spread [(''extract'', JBool True)] pluginOptions)
                else pluginOptions);
             moduleName = ''rollup-plugin-'' @ js_to_string pluginName
         in case localRequire env moduleName of
              Inl err \<Rightarrow> Inl (handleLoadPluginError env moduleName err)
            | Inr factory \<Rightarrow>
                (case factory pluginOptions' of
                   Inl err \<Rightarrow> Inl (handleLoadPluginError env moduleName err)
                 | Inr plugin \<Rightarrow> Inr plugin)))"

text \<open>\<open>loadUserPlugins\<close> (lines 94-130): only an array has \<open>map\<close>.\<close>

definition loadUserPlugins :: "env \<Rightarrow> build_options \<Rightarrow> string \<Rightarrow> error + jsval list" where
  "loadUserPlugins env opts fname =
     (case js_or (getArrayOption opts ''plugin'') (JArr []) of
        JArr ps \<Rightarrow> js_map (loadUserPlugin env opts fname) ps
      | _ \<Rightarrow> Inl (new_TypeError ''plugins.map is not a function''))"

section \<open>Tasks\<close>

record task =
  input :: string
  format :: string
  compress :: bool

text \<open>
  \<open>format.replace(/-min$/, '''')\<close>: the first match from the left is replaced. Without
  the multiline flag \<open>$\<close> is the end of the string, so the pattern matches at a position
  exactly when the rest of the string is \<open>-min\<close>.
\<close>

fun replace_min :: "string \<Rightarrow> string" where
  "replace_min [] = []"
| "replace_min (c # cs) = (if c # cs = ''-min'' then [] else c # replace_min cs)"

text \<open>
  The callback of \<open>formats.map\<close> (lines 283-290). \<open>endsWith\<close> and \<open>replace\<close> are
  string methods: on an element that is not a string the call is a type error.
\<close>

fun format_task :: "string \<Rightarrow> jsval \<Rightarrow> error + task" where
  "format_task inp (JStr f) =
     Inr \<lparr>task.input = inp, format = replace_min f, compress = suffix ''-min'' f\<rparr>"
| "format_task inp v = Inl (new_TypeError ''format.endsWith is not a function'')"

text \<open>\<open>formats.map(...)\<close>: only an array has \<open>map\<close>.\<close>

fun formats_map :: "jsval \<Rightarrow> string \<Rightarrow> error + task list" where
  "formats_map (JArr fs) inp = js_map (format_task inp) fs"
| "formats_map v inp = Inl (new_TypeError ''formats.map is not a function'')"

text \<open>
  \<open>inputFiles.reduce((res, input) => [...res, ...formats.map(...)], [])\<close>
  (lines 280-293), with the accumulator \<open>res\<close> explicit.
\<close>

fun reduce_options :: "jsval \<Rightarrow> task list \<Rightarrow> string list \<Rightarrow> error + task list" where
  "reduce_options formats res [] = Inr res"
| "reduce_options formats res (inp # rest) =
     (case formats_map formats inp of
        Inl e \<Rightarrow> Inl e
      | Inr ts \<Rightarrow> reduce_options formats (res @ ts) rest)"

section \<open>The builder\<close>

text \<open>
  An instance of the class: its options, the manifest read by \<open>bundle\<close>, and the
  artifact records \<open>this.bundles\<close> keyed by output path, in insertion order.
  \<open>engine_calls\<close> is not a field of the class: it counts the calls of \<open>rollup\<close> and
  \<open>watch\<close> made so far, so that a property can say that none was made.
\<close>

record artifact = task +
  relative :: string
  code :: string

record bili =
  options :: build_options
  pkg :: jsval
  bundles :: "(string \<times> artifact) list"
  engine_calls :: nat

text \<open>
  The external list of \<open>createConfig\<close> (lines 156-161). \<open>startsWith\<close> is a string
  method and only an array has \<open>map\<close>. \<open>path.resolve(e)\<close> resolves against the
  working directory of the process.
\<close>

fun external_entry :: "env \<Rightarrow> jsval \<Rightarrow> error + string" where
  "external_entry env (JStr e) =
     Inr (if prefix ''./'' e then path_resolve (process_cwd env) [e] else e)"
| "external_entry env v = Inl (new_TypeError ''e.startsWith is not a function'')"

definition externals :: "env \<Rightarrow> build_options \<Rightarrow> error + string list" where
  "externals env opts =
     (case js_or (getArrayOption opts ''external'') (JArr []) of
        JArr es \<Rightarrow>
          (case js_map (external_entry env) es of
             Inl e \<Rightarrow> Inl e
           | Inr ext \<Rightarrow>
               (let globals = js_or (props opts ''globals'') (props opts ''global'')
                in if typeof globals = TObject then
                     (case Object_keys globals of
                        Inl e \<Rightarrow> Inl e
                      | Inr ks \<Rightarrow> Inr (ext @ ks))
                   else Inr ext))
      | _ \<Rightarrow> Inl (new_TypeError ''external.map is not a function''))"

text \<open>
  \<open>createConfig\<close> (lines 132-261), in the order the source evaluates it: the output
  file name, the transpiler plugin, the external list, the user plugins, the pipeline
  with its falsy entries filtered out, the output options. \<open>output_filename\<close> and
  \<open>output_path\<close> name its first two results, \<open>outFilename\<close> and \<open>file\<close>;
  \<open>js_plugin_name\<close> is \<open>this.options.js || ''buble''\<close> and \<open>plugin_pipeline\<close> the
  array \<open>plugins\<close>, where \<open>inline\<close> defaults to the format being \<open>umd\<close>. Left out are the warning
  handler, the banner and the module name (\<open>./get-banner\<close>, \<open>camelcase\<close> and the
  manifest decide them) and the option bags handed to the built-in factories; these
  parts are taken not to throw, and the factories to return a plugin.
\<close>

definition output_filename :: "build_options \<Rightarrow> task \<Rightarrow> error + string" where
  "output_filename opts t =
     getFilename (task.input t) (task.format t) (filename opts) (compress t) (name opts)"

definition output_path :: "env \<Rightarrow> build_options \<Rightarrow> task \<Rightarrow> error + string" where
  "output_path env opts t =
     (case output_filename opts t of
        Inl e \<Rightarrow> Inl e
      | Inr outFilename \<Rightarrow> Inr (resolveCwd env opts [outDir opts, outFilename]))"

definition plugin_pipeline ::
  "build_options \<Rightarrow> task \<Rightarrow> string \<Rightarrow> jsval list \<Rightarrow> string \<Rightarrow> plugin list" where
  "plugin_pipeline opts t jsPluginName userPlugins outFile =
     (let inline = (if props opts ''inline'' = Undefined then JBool (task.format t = ''umd'')
                    else props opts ''inline'')
      in [Hashbang]
         @ map UserPlugin (filter truthy userPlugins)
         @ (if jsPluginName = ''buble'' then [BabelForBuble] else [])
         @ [JsPlugin jsPluginName]
         @ (if truthy inline then [Commonjs, NodeResolve] else [])
         @ [Json]
         @ (if compress t then [Uglify] else [])
         @ (if truthy (props opts ''alias'') then [Alias (props opts ''alias'')] else [])
         @ (if truthy (props opts ''replace'') then [Replace (props opts ''replace'')] else [])
         @ [Collector outFile]
         @ (if truthy (props opts ''env'') then [EnvReplace (props opts ''env'')] else []))"

definition js_plugin_name :: "build_options \<Rightarrow> string" where
  "js_plugin_name opts = (if truthy (opt_value (js opts)) then the (js opts) else ''buble'')"

definition createConfig :: "env \<Rightarrow> bili \<Rightarrow> task \<Rightarrow> error + config" where
  "createConfig env b t =
     (let opts = options b
      in case output_filename opts t of
           Inl e \<Rightarrow> Inl e
         | Inr outFilename \<Rightarrow>
      (let outFile = resolveCwd env opts [outDir opts, outFilename];
           jsPluginName = js_plugin_name opts
       in case getJsPlugin env jsPluginName of
            Inl e \<Rightarrow> Inl e
          | Inr jsPlugin \<Rightarrow>
       (case externals env opts of
            Inl e \<Rightarrow> Inl e
          | Inr ext \<Rightarrow>
       (case loadUserPlugins env opts outFilename of
            Inl e \<Rightarrow> Inl e
          | Inr userPlugins \<Rightarrow>
              Inr \<lparr>inputOptions =
                     \<lparr>inputOptions.input = task.input t,
                      external = ext,
                      plugins = plugin_pipeline opts t jsPluginName userPlugins outFile\<rparr>,
                   outputOptions =
                     \<lparr>outputOptions.format = task.format t,
                      globals = js_or (props opts ''globals'') (props opts ''global''),
                      file = outFile,
                      exports = props opts ''exports'',
                      sourcemap =
                        (case props opts ''map'' of
                           JBool m \<Rightarrow> m
                         | _ \<Rightarrow> compress t)\<rparr>\<rparr>))))"

text \<open>
  The \<open>ongenerate\<close> hook of the stage named \<open>bili\<close> (lines 226-234):
  \<open>this.bundles[file] = {relative, input, format, compress, code}\<close>.
\<close>

definition ongenerate :: "env \<Rightarrow> task \<Rightarrow> string \<Rightarrow> string \<Rightarrow> bili \<Rightarrow> bili" where
  "ongenerate env t outFile generated b =
     b\<lparr>bundles :=
         set_property outFile
           \<lparr>task.input = task.input t, format = task.format t, compress = compress t,
            relative =
              path_relative (process_cwd env)
                (path_resolve (process_cwd env) [outDir (options b), ''..'']) outFile,
            code = generated\<rparr>
           (bundles b)\<rparr>"

text \<open>
  One action of \<open>bundle\<close> (lines 295-339), run until it settles; the result is the
  error it rejects with, if any. In watch mode the action starts a watcher and
  returns: what the watcher does later is not part of the call. The logging under
  \<open>inspectRollup\<close> changes nothing here.
\<close>

definition run_action :: "env \<Rightarrow> bool \<Rightarrow> bili \<Rightarrow> task \<Rightarrow> bili \<times> error option" where
  "run_action env write b t =
     (case createConfig env b t of
        Inl e \<Rightarrow> (b, Some e)
      | Inr cfg \<Rightarrow>
          if truthy (props (options b) ''watch'') then
            (b\<lparr>engine_calls := Suc (engine_calls b)\<rparr>, None)
          else
            (case engine env (inputOptions cfg) (outputOptions cfg) write of
               Rejected e \<Rightarrow> (b\<lparr>engine_calls := Suc (engine_calls b)\<rparr>, Some e)
             | Generated generated res \<Rightarrow>
                 (ongenerate env t (file (outputOptions cfg)) generated
                    (b\<lparr>engine_calls := Suc (engine_calls b)\<rparr>),
                  res)))"

text \<open>
  \<open>await Promise.all(actions)\<close>: every action is started and runs to its end; the
  promise is rejected when one of them is. Which rejection comes first in time is the
  engine's matter; the error kept here is that of the first rejected action of the
  list, and no property below depends on which one it is.
\<close>

fun run_actions :: "env \<Rightarrow> bool \<Rightarrow> bili \<Rightarrow> task list \<Rightarrow> bili \<times> error option" where
  "run_actions env write b [] = (b, None)"
| "run_actions env write b (t # ts) =
     (case run_action env write b t of
        (b', r) \<Rightarrow>
          (case run_actions env write b' ts of
             (b'', r') \<Rightarrow> (b'', case r of Some e \<Rightarrow> Some e | None \<Rightarrow> r')))"

definition FORMATS :: jsval where
  "FORMATS = JArr [JStr ''cjs'']"

text \<open>The input patterns handed to the glob resolver (lines 266-269).\<close>

definition input_patterns :: "build_options \<Rightarrow> jsval" where
  "input_patterns opts =
     (let inputFiles = js_or (props opts ''input'') (JStr ''src/index.js'')
      in if inputFiles = JArr [] then JStr ''src/index.js'' else inputFiles)"

text \<open>
  The resolved input files (lines 271-272): the matches of the glob resolver, each
  re-expressed relative to the working directory of the process.
\<close>

definition resolve_inputs :: "env \<Rightarrow> build_options \<Rightarrow> error + string list" where
  "resolve_inputs env opts =
     (case globby env (input_patterns opts) (cwd opts) of
        Inl e \<Rightarrow> Inl e
      | Inr matched \<Rightarrow> Inr (map (\<lambda>v. relativeToProcessCwd env opts [v]) matched))"

text \<open>The requested formats (line 278).\<close>

definition requested_formats :: "build_options \<Rightarrow> jsval" where
  "requested_formats opts = js_or (getArrayOption opts ''format'') FORMATS"

text \<open>The message of the error thrown by the check after the build (lines 349-360).\<close>

definition collision_message :: "env \<Rightarrow> build_options \<Rightarrow> string list \<Rightarrow> string" where
  "collision_message env opts inputFiles =
     (let hasName = sublist ''[name]'' (filename opts);
          hasSuffix = sublist ''[suffix]'' (filename opts)
      in ''Multiple files are emitting to the same path.'' @ [char_of (10 :: nat)]
         @ ''Please check if ''
         @ (if hasName \<or> length inputFiles = 1 then []
            else chalk_green (colors env) ''[name]'' @ (if hasSuffix then [] else '' or ''))
         @ (if hasSuffix then [] else chalk_green (colors env) ''[suffix]'')
         @ '' is missing in '' @ chalk_green (colors env) ''filename'' @ '' option.''
         @ [char_of (10 :: nat)] @ getDocRef env ''api'' ''filename'')"

text \<open>
  The callback handed to \<open>nextTick\<close> (lines 344-363), which runs it once every action
  has settled and turns its exception into the rejection of \<open>bundle\<close>. \<open>formats\<close> is
  an array whenever the callback is reached.
\<close>

definition check_bundles :: "env \<Rightarrow> bili \<Rightarrow> jsval \<Rightarrow> string list \<Rightarrow> error option" where
  "check_bundles env b formats inputFiles =
     (case formats of
        JArr fs \<Rightarrow>
          if length (map fst (bundles b)) < length fs * length inputFiles
          then Some (new_BiliError (collision_message env (options b) inputFiles))
          else None
      | _ \<Rightarrow> None)"

text \<open>
  \<open>bundle\<close> (lines 263-366), primed because the name is a keyword here. The result is the instance as the call leaves it and
  either the error the call rejects with or success.
\<close>

definition bundle' :: "env \<Rightarrow> bool \<Rightarrow> bili \<Rightarrow> bili \<times> (error + unit)" where
  "bundle' env write b =
     (case readPkg env (cwd (options b)) of
        Inl e \<Rightarrow> (b, Inl e)
      | Inr p \<Rightarrow>
      (let b1 = b\<lparr>pkg := js_or p (JObj [])\<rparr>
       in case resolve_inputs env (options b1) of
            Inl e \<Rightarrow> (b1, Inl e)
          | Inr inputFiles \<Rightarrow>
          (if length inputFiles = 0 then
             (b1, Inl (new_BiliError ''No matched files to bundle.''))
           else
             (let formats = requested_formats (options b1)
              in case reduce_options formats [] inputFiles of
                   Inl e \<Rightarrow> (b1, Inl e)
                 | Inr tasks \<Rightarrow>
                     (case run_actions env write b1 tasks of
                        (b2, Some e) \<Rightarrow> (b2, Inl e)
                      | (b2, None) \<Rightarrow>
                          (case check_bundles env b2 formats inputFiles of
                             Some e \<Rightarrow> (b2, Inl e)
                           | None \<Rightarrow> (b2, Inr ())))))))"

text \<open>
  The instance the constructor (lines 48-57) builds, given the options it stores, that
  is the caller's options over the defaults: no manifest yet and no artifact record.
\<close>

definition new_Bili :: "build_options \<Rightarrow> bili" where
  "new_Bili opts = \<lparr>options = opts, pkg = Undefined, bundles = [], engine_calls = 0\<rparr>"

section \<open>A sample project\<close>

text \<open>
  A project directory \<open>/proj\<close> with two sources, built from that directory: a glob
  resolver that knows \<open>src/index.js\<close> and \<open>src/*.js\<close>, a module loader that finds
  every module but those named \<open>missing\<close>, and an engine that generates a fixed text
  and writes it.
\<close>

definition sample_env :: env where
  "sample_env =
     \<lparr>process_cwd = ''/proj'',
      colors = False,
      readPkg = (\<lambda>dir. Inr (JObj [(''name'', JStr ''sample'')])),
      globby = (\<lambda>patterns dir.
        if patterns = JStr ''src/index.js'' then Inr [''src/index.js'']
        else if patterns = JStr ''src/*.js'' then Inr [''src/index.js'', ''src/cli.js'']
        else Inr []),
      require = (\<lambda>m.
        if sublist ''missing'' m
        then Inl (Thrown PlainError (JStr ''MODULE_NOT_FOUND'') (''Cannot find module '' @ m))
        else Inr (\<lambda>bag. Inr (JObj [(''name'', JStr m)]))),
      engine = (\<lambda>i ou w. Generated ''export default 1'' None),
      getDocRef = (\<lambda>page anchor. ''docs/'' @ page @ ''#'' @ anchor)\<rparr>"

definition sample_props :: "string \<Rightarrow> jsval" where
  "sample_props key =
     (if key = ''format'' then JStr ''cjs,es-min''
      else if key = ''formats'' then JArr [JStr ''umd'']
      else if key = ''input'' then JStr ''src/*.js''
      else if key = ''externals'' then JArr [JStr ''./lib/helper.js'', JStr ''vue'']
      else if key = ''globals'' then JObj [(''jquery'', JStr ''$'')]
      else Undefined)"

definition sample_options :: build_options where
  "sample_options =
     \<lparr>outDir = ''dist'', filename = ''[name][suffix].js'', cwd = ''/proj'',
      name = None, js = None, props = sample_props\<rparr>"

section \<open>Strings and lists: auxiliary facts\<close>

lemma split_nonempty: "split sep s \<noteq> []"
  by (induction s) (auto split: list.splits)

lemma join_Cons_Cons: "join sep ((c # w) # ws) = c # join sep (w # ws)"
  by (cases ws) auto

lemma join_Nil_Cons: "ws \<noteq> [] \<Longrightarrow> join sep ([] # ws) = sep # join sep ws"
  by (cases ws) auto

lemma join_split: "join sep (split sep s) = s"
proof (induction s)
  case Nil
  then show ?case by simp
next
  case (Cons c cs)
  obtain w ws where sp: "split sep cs = w # ws"
    using split_nonempty [of sep cs] by (cases "split sep cs") auto
  show ?case
  proof (cases "c = sep")
    case True
    then show ?thesis using Cons sp by (simp add: join_Nil_Cons)
  next
    case False
    then show ?thesis using Cons sp by (simp add: join_Cons_Cons)
  qed
qed

lemma split_no_sep: "w \<in> set (split sep s) \<Longrightarrow> sep \<notin> set w"
  by (induction s arbitrary: w) (auto split: list.splits if_splits)

lemma replace_min_eq:
  "replace_min f = (if suffix ''-min'' f then take (length f - 4) f else f)"
proof (induction f)
  case Nil
  then show ?case by simp
next
  case (Cons c cs)
  show ?case
  proof (cases "c # cs = ''-min''")
    case True
    then show ?thesis by simp
  next
    case False
    have sfx: "suffix ''-min'' (c # cs) = suffix ''-min'' cs"
      using False by (auto simp: suffix_Cons)
    show ?thesis
    proof (cases "suffix ''-min'' cs")
      case True
      then have "4 \<le> length cs" by (auto dest: suffix_length_le)
      then have "take (length (c # cs) - 4) (c # cs) = c # take (length cs - 4) cs"
        by (simp add: take_Cons')
      with True False sfx Cons show ?thesis by simp
    next
      case no_marker: False
      with False sfx Cons show ?thesis by simp
    qed
  qed
qed





section \<open>Properties of the format suffix\<close>

text \<open>
  C3. \<open>getSuffix\<close> returns \<open>.cjs\<close> for \<open>cjs\<close>, \<open>.m\<close> for \<open>es\<close> and the empty
  string for \<open>umd\<close>; on every other value, string or not, it throws the error
  \<open>unsupported format\<close> and has no default suffix.
\<close>

theorem getSuffix_total_on_formats:
  "getSuffix (JStr ''cjs'') = Inr ''.cjs'' \<and>
   getSuffix (JStr ''es'') = Inr ''.m'' \<and>
   getSuffix (JStr ''umd'') = Inr '''' \<and>
   (v \<notin> {JStr ''cjs'', JStr ''es'', JStr ''umd''} \<longrightarrow>
      getSuffix v = Inl (new_Error ''unsupported format''))"
  by (cases v) auto

theorem getSuffix_total_on_formats_witness:
  "JStr ''foo'' \<notin> {JStr ''cjs'', JStr ''es'', JStr ''umd''} \<and>
   getSuffix (JStr ''foo'') = Inl (Thrown PlainError Undefined ''unsupported format'') \<and>
   getSuffix (JNum 3) = Inl (Thrown PlainError Undefined ''unsupported format'')"
  using getSuffix_total_on_formats [of "JStr ''foo''"] getSuffix_total_on_formats [of "JNum 3"]
  by (simp add: new_Error_def)

section \<open>Properties of the tasks\<close>

text \<open>
  C5. A requested format that ends in the marker \<open>-min\<close> gives a task whose format is
  the requested one without the marker and whose compress flag is set; a requested
  format that does not end in the marker gives a task with the format as requested
  and the compress flag clear.
\<close>

theorem format_task_min_marker:
  "(suffix ''-min'' f \<longrightarrow>
      format_task inp (JStr f) =
        Inr \<lparr>task.input = inp, format = take (length f - 4) f, compress = True\<rparr> \<and>
      take (length f - 4) f @ ''-min'' = f) \<and>
   (\<not> suffix ''-min'' f \<longrightarrow>
      format_task inp (JStr f) = Inr \<lparr>task.input = inp, format = f, compress = False\<rparr>)"
proof (cases "suffix ''-min'' f")
  case True
  then obtain zs where "f = zs @ ''-min''"
    by (auto simp: suffix_def)
  then have "take (length f - 4) f @ ''-min'' = f"
    by simp
  with True show ?thesis by (simp add: replace_min_eq)
next
  case False
  then show ?thesis by (simp add: replace_min_eq)
qed

theorem format_task_min_marker_witness:
  "suffix ''-min'' ''umd-min'' \<and>
   format_task ''src/index.js'' (JStr ''umd-min'') =
     Inr \<lparr>task.input = ''src/index.js'', format = ''umd'', compress = True\<rparr> \<and>
   \<not> suffix ''-min'' ''cjs'' \<and>
   format_task ''src/index.js'' (JStr ''cjs'') =
     Inr \<lparr>task.input = ''src/index.js'', format = ''cjs'', compress = False\<rparr>"
  using format_task_min_marker [of "''umd-min''" "''src/index.js''"]
    format_task_min_marker [of "''cjs''" "''src/index.js''"]
  by (simp add: suffix_to_prefix)



section \<open>Properties of the list-valued options\<close>

text \<open>
  C10. \<open>getArrayOption\<close> reads the singular key when its value is truthy and the
  plural key otherwise. A string read this way is split at its commas into a list,
  whose pieces contain no comma and give the string back when joined with commas;
  a value that is not a string is returned as it is.
\<close>

theorem getArrayOption_singular_first:
  "(truthy (get_option opts nm) \<longrightarrow>
      (\<forall>s. get_option opts nm = JStr s \<longrightarrow>
            getArrayOption opts nm = JArr (map JStr (split CHR '','' s))) \<and>
      (typeof (get_option opts nm) \<noteq> TString \<longrightarrow>
            getArrayOption opts nm = get_option opts nm)) \<and>
   (\<not> truthy (get_option opts nm) \<longrightarrow>
      (\<forall>s. get_option opts (nm @ ''s'') = JStr s \<longrightarrow>
            getArrayOption opts nm = JArr (map JStr (split CHR '','' s))) \<and>
      (typeof (get_option opts (nm @ ''s'')) \<noteq> TString \<longrightarrow>
            getArrayOption opts nm = get_option opts (nm @ ''s''))) \<and>
   join CHR '','' (split CHR '','' s') = s' \<and>
   (\<forall>w \<in> set (split CHR '','' s'). CHR '','' \<notin> set w)"
proof -
  have "typeof v \<noteq> TString \<Longrightarrow> (case v of JStr s \<Rightarrow> JArr (map JStr (split CHR '','' s)) | _ \<Rightarrow> v) = v"
    for v by (cases v) auto
  then show ?thesis
    by (auto simp: getArrayOption_def js_or_def join_split split_no_sep)
qed

theorem getArrayOption_singular_first_witness:
  "truthy (get_option sample_options ''format'') \<and>
   get_option sample_options ''format'' = JStr ''cjs,es-min'' \<and>
   getArrayOption sample_options ''format'' = JArr [JStr ''cjs'', JStr ''es-min''] \<and>
   \<not> truthy (get_option sample_options ''external'') \<and>
   typeof (get_option sample_options (''external'' @ ''s'')) \<noteq> TString \<and>
   getArrayOption sample_options ''external'' = JArr [JStr ''./lib/helper.js'', JStr ''vue''] \<and>
   ''cjs'' \<in> set (split CHR '','' ''cjs,es-min'') \<and> CHR '','' \<notin> set ''cjs''"
  using getArrayOption_singular_first [of sample_options "''format''" "''cjs,es-min''"]
    getArrayOption_singular_first [of sample_options "''external''" "''cjs,es-min''"]
  by (simp add: get_option_def sample_options_def sample_props_def)

section \<open>Properties of the output file names\<close>




text \<open>
  A pattern with a directory part: \<open>path.basename\<close> leaves the directory out of the
  compressed name, while the plain name keeps it.
\<close>

lemma getFilename_directory_part:
  "getFilename ''src/index.js'' ''cjs'' ''lib/[name][suffix].js'' False None = Inr ''lib/index.cjs.js'' \<and>
   getFilename ''src/index.js'' ''cjs'' ''lib/[name][suffix].js'' True None = Inr ''index.cjs.min.js''"
  by code_simp



section \<open>Properties of the engine configurations\<close>

lemma createConfig_Inr:
  assumes "createConfig env b t = Inr cfg"
  shows "\<exists>outFilename ext.
           output_filename (options b) t = Inr outFilename \<and>
           externals env (options b) = Inr ext \<and>
           inputOptions.input (inputOptions cfg) = task.input t \<and>
           external (inputOptions cfg) = ext \<and>
           outputOptions.format (outputOptions cfg) = task.format t \<and>
           file (outputOptions cfg) = resolveCwd env (options b) [outDir (options b), outFilename] \<and>
           sourcemap (outputOptions cfg) =
             (case props (options b) ''map'' of JBool m \<Rightarrow> m | _ \<Rightarrow> compress t)"
  using assms unfolding createConfig_def Let_def
  by (auto split: sum.splits)

lemma js_map_external_entry:
  "js_map (external_entry env) vs = Inr ext \<Longrightarrow>
     \<exists>es. vs = map JStr es \<and>
          ext = map (\<lambda>e. if prefix ''./'' e then path_resolve (process_cwd env) [e] else e) es"
proof (induction vs arbitrary: ext)
  case Nil
  then show ?case by simp
next
  case (Cons v vs)
  from Cons.prems obtain y ys where y: "external_entry env v = Inr y"
    and ys: "js_map (external_entry env) vs = Inr ys" and ext: "ext = y # ys"
    by (auto split: sum.splits)
  from y obtain e where v: "v = JStr e"
    and ye: "y = (if prefix ''./'' e then path_resolve (process_cwd env) [e] else e)"
    by (cases v) auto
  from Cons.IH [OF ys] obtain es where "vs = map JStr es"
    and "ys = map (\<lambda>e. if prefix ''./'' e then path_resolve (process_cwd env) [e] else e) es"
    by blast
  with v ye ext have "v # vs = map JStr (e # es) \<and>
      ext = map (\<lambda>e. if prefix ''./'' e then path_resolve (process_cwd env) [e] else e) (e # es)"
    by simp
  then show ?case by (rule exI)
qed

lemma externals_Inr:
  assumes "externals env opts = Inr ext"
  shows "\<exists>es. js_or (getArrayOption opts ''external'') (JArr []) = JArr (map JStr es) \<and>
           ext = map (\<lambda>e. if prefix ''./'' e then path_resolve (process_cwd env) [e] else e) es
                 @ (if typeof (js_or (props opts ''globals'') (props opts ''global'')) = TObject
                    then map fst (own_props (js_or (props opts ''globals'') (props opts ''global'')))
                    else [])"
proof -
  let ?g = "js_or (props opts ''globals'') (props opts ''global'')"
  from assms obtain vs ext0 where decl: "js_or (getArrayOption opts ''external'') (JArr []) = JArr vs"
    and m: "js_map (external_entry env) vs = Inr ext0"
    and tail: "(if typeof ?g = TObject
                then (case Object_keys ?g of Inl e \<Rightarrow> Inl e | Inr ks \<Rightarrow> Inr (ext0 @ ks))
                else Inr ext0) = Inr ext"
    unfolding externals_def Let_def by (auto split: jsval.splits sum.splits)
  from js_map_external_entry [OF m] obtain es where vs: "vs = map JStr es"
    and ext0: "ext0 = map (\<lambda>e. if prefix ''./'' e then path_resolve (process_cwd env) [e] else e) es"
    by blast
  have "ext = ext0 @ (if typeof ?g = TObject then map fst (own_props ?g) else [])"
    using tail by (cases ?g) (auto split: if_splits)
  with decl vs ext0 show ?thesis by blast
qed

lemma resolve_loop_absolute:
  "prefix ''/'' d \<Longrightarrow> snd (resolve_loop (ps @ [d]) acc) = True"
  by (induction ps arbitrary: acc) auto

lemma path_resolve_absolute:
  assumes "prefix ''/'' d"
  shows "prefix ''/'' (path_resolve d args)"
proof -
  obtain r a where loop: "resolve_loop (rev args @ [d]) [] = (r, a)"
    by (cases "resolve_loop (rev args @ [d]) []")
  with resolve_loop_absolute [OF assms, of "rev args" "[]"] have "a" by simp
  with loop show ?thesis by (simp add: path_resolve_def)
qed

text \<open>
  C8. The source-map flag of a task's output options is the \<open>map\<close> option when that
  option is a boolean, and the compress flag of the task in every other case.
\<close>

theorem createConfig_sourcemap:
  "createConfig env b t = Inr cfg \<Longrightarrow>
     (\<forall>m. props (options b) ''map'' = JBool m \<longrightarrow> sourcemap (outputOptions cfg) = m) \<and>
     (typeof (props (options b) ''map'') \<noteq> TBoolean \<longrightarrow>
        sourcemap (outputOptions cfg) = compress t)"
proof -
  assume "createConfig env b t = Inr cfg"
  then have "sourcemap (outputOptions cfg) =
      (case props (options b) ''map'' of JBool m \<Rightarrow> m | _ \<Rightarrow> compress t)"
    using createConfig_Inr by blast
  then show ?thesis
    by (cases "props (options b) ''map''") auto
qed

text \<open>
  C9, as amended. The external list of a task's input options is the user-declared
  externals in their order, where an entry that starts with \<open>./\<close> is replaced by its
  resolution against the working directory of the process, which is an absolute path,
  and every other entry is passed through unchanged, a bare name and a local path that
  does not start with \<open>./\<close> (such as \<open>../c\<close>, \<open>.\<close> or \<open>..\<close>) alike; the keys of the
  globals value follow when that value is an object.
\<close>

theorem createConfig_external:
  "createConfig env b t = Inr cfg \<Longrightarrow>
     (\<exists>es. js_or (getArrayOption (options b) ''external'') (JArr []) = JArr (map JStr es) \<and>
        external (inputOptions cfg) =
          map (\<lambda>e. if prefix ''./'' e then path_resolve (process_cwd env) [e] else e) es
          @ (if typeof (js_or (props (options b) ''globals'') (props (options b) ''global'')) = TObject
             then map fst (own_props (js_or (props (options b) ''globals'') (props (options b) ''global'')))
             else [])) \<and>
     (prefix ''/'' (process_cwd env) \<longrightarrow>
        (\<forall>e. prefix ''/'' (path_resolve (process_cwd env) [e])))"
proof -
  assume "createConfig env b t = Inr cfg"
  then obtain ext where "externals env (options b) = Inr ext" "external (inputOptions cfg) = ext"
    using createConfig_Inr by blast
  then show ?thesis
    using externals_Inr [of env "options b" ext] path_resolve_absolute [of "process_cwd env"]
    by auto
qed

theorem createConfig_sourcemap_witness:
  "(\<exists>cfg. createConfig sample_env (new_Bili sample_options)
            \<lparr>task.input = ''src/index.js'', format = ''es'', compress = True\<rparr> = Inr cfg \<and>
          typeof (props (options (new_Bili sample_options)) ''map'') \<noteq> TBoolean \<and>
          sourcemap (outputOptions cfg) = True) \<and>
   (\<exists>cfg. createConfig sample_env
            (new_Bili (sample_options\<lparr>props := sample_props(''map'' := JBool False)\<rparr>))
            \<lparr>task.input = ''src/index.js'', format = ''es'', compress = True\<rparr> = Inr cfg \<and>
          sourcemap (outputOptions cfg) = False)"
proof -
  let ?t = "\<lparr>task.input = ''src/index.js'', format = ''es'', compress = True\<rparr>"
  let ?b = "new_Bili sample_options"
  let ?b' = "new_Bili (sample_options\<lparr>props := sample_props(''map'' := JBool False)\<rparr>)"
  have "\<not> isl (createConfig sample_env ?b ?t)"
    by code_simp
  then obtain cfg where cfg: "createConfig sample_env ?b ?t = Inr cfg"
    by (cases "createConfig sample_env ?b ?t") auto
  have unset: "typeof (props (options ?b) ''map'') \<noteq> TBoolean"
    by (simp add: new_Bili_def sample_options_def sample_props_def)
  have "\<not> isl (createConfig sample_env ?b' ?t)"
    by code_simp
  then obtain cfg' where cfg': "createConfig sample_env ?b' ?t = Inr cfg'"
    by (cases "createConfig sample_env ?b' ?t") auto
  have set: "props (options ?b') ''map'' = JBool False"
    by (simp add: new_Bili_def)
  from createConfig_sourcemap [OF cfg] unset have "sourcemap (outputOptions cfg) = compress ?t"
    by (rule conjunct2 [THEN mp])
  then have on: "sourcemap (outputOptions cfg) = True"
    by simp
  from createConfig_sourcemap [OF cfg'] have "\<forall>m. props (options ?b') ''map'' = JBool m \<longrightarrow>
      sourcemap (outputOptions cfg') = m"
    by (rule conjunct1)
  with set have off: "sourcemap (outputOptions cfg') = False"
    by (rule allE [where x = False, THEN mp, rotated 2]) 
  from cfg unset on cfg' off show ?thesis
    by blast
qed

theorem createConfig_external_witness:
  "\<exists>cfg. createConfig sample_env (new_Bili sample_options)
            \<lparr>task.input = ''src/index.js'', format = ''cjs'', compress = False\<rparr> = Inr cfg \<and>
         external (inputOptions cfg) = [''/proj/lib/helper.js'', ''vue'', ''jquery''] \<and>
         prefix ''/'' (process_cwd sample_env) \<and>
         prefix ''/'' (path_resolve (process_cwd sample_env) [''./lib/helper.js''])"
proof -
  let ?t = "\<lparr>task.input = ''src/index.js'', format = ''cjs'', compress = False\<rparr>"
  let ?b = "new_Bili sample_options"
  have "\<not> isl (createConfig sample_env ?b ?t)"
    by code_simp
  then obtain cfg where cfg: "createConfig sample_env ?b ?t = Inr cfg"
    by (cases "createConfig sample_env ?b ?t") auto
  have declared: "js_or (getArrayOption (options ?b) ''external'') (JArr [])
      = JArr (map JStr [''./lib/helper.js'', ''vue''])"
    by code_simp
  have globals: "js_or (props (options ?b) ''globals'') (props (options ?b) ''global'')
      = JObj [(''jquery'', JStr ''$'')]"
    by code_simp
  have cwd: "process_cwd sample_env = ''/proj''"
    by (simp add: sample_env_def)
  have resolved: "path_resolve ''/proj'' [''./lib/helper.js''] = ''/proj/lib/helper.js''"
    by code_simp
  from createConfig_external [OF cfg] obtain es
    where es: "js_or (getArrayOption (options ?b) ''external'') (JArr []) = JArr (map JStr es)"
      and ext: "external (inputOptions cfg) =
        map (\<lambda>e. if prefix ''./'' e then path_resolve (process_cwd sample_env) [e] else e) es
        @ (if typeof (js_or (props (options ?b) ''globals'') (props (options ?b) ''global'')) = TObject
           then map fst (own_props (js_or (props (options ?b) ''globals'') (props (options ?b) ''global'')))
           else [])"
      and abs: "prefix ''/'' (process_cwd sample_env) \<longrightarrow>
        (\<forall>e. prefix ''/'' (path_resolve (process_cwd sample_env) [e]))"
    by blast
  have "inj JStr"
    by (simp add: inj_def)
  moreover from es declared have "map JStr es = map JStr [''./lib/helper.js'', ''vue'']"
    by (simp only: jsval.inject)
  ultimately have "es = [''./lib/helper.js'', ''vue'']"
    by (simp only: inj_map_eq_map)
  with ext globals cwd resolved
  have "external (inputOptions cfg) = [''/proj/lib/helper.js'', ''vue'', ''jquery'']"
    by simp
  moreover have "prefix ''/'' (process_cwd sample_env)"
    by (simp add: cwd)
  ultimately show ?thesis
    using cfg abs by blast
qed

text \<open>
  C9, as the claim states it, fails: not each local path entry is resolved to an
  absolute path. The declared external \<open>../lib/helper.js\<close> is a local path; the test
  \<open>e.startsWith(''./'')\<close> is false for it, so it reaches the engine as it is, relative,
  although \<open>path.resolve\<close> would have made it \<open>/lib/helper.js\<close>.
\<close>

theorem createConfig_external_counterexample:
  "\<not> isl (createConfig sample_env
            (new_Bili (sample_options\<lparr>props := sample_props(''externals'' := JArr [JStr ''../lib/helper.js''])\<rparr>))
            \<lparr>task.input = ''src/index.js'', format = ''cjs'', compress = False\<rparr>) \<and>
   external (inputOptions (projr (createConfig sample_env
            (new_Bili (sample_options\<lparr>props := sample_props(''externals'' := JArr [JStr ''../lib/helper.js''])\<rparr>))
            \<lparr>task.input = ''src/index.js'', format = ''cjs'', compress = False\<rparr>)))
     = [''../lib/helper.js'', ''jquery''] \<and>
   \<not> prefix ''/'' ''../lib/helper.js'' \<and>
   path_resolve (process_cwd sample_env) [''../lib/helper.js''] = ''/lib/helper.js''"
  by code_simp

section \<open>Properties of plugin loading\<close>

lemma sublist_middle: "sublist m (a @ m @ c)"
  by (auto simp: sublist_def)

lemma sublist_prepend:
  assumes "sublist m s"
  shows "sublist m (a @ s)"
proof -
  from assms obtain ps ss where "s = ps @ m @ ss"
    by (auto simp: sublist_def)
  then have "a @ s = (a @ ps) @ m @ ss"
    by simp
  then show ?thesis
    unfolding sublist_def by blast
qed

lemma sublist_postpend:
  assumes "sublist m s"
  shows "sublist m (s @ c)"
proof -
  from assms obtain ps ss where "s = ps @ m @ ss"
    by (auto simp: sublist_def)
  then have "s @ c = ps @ m @ (ss @ c)"
    by simp
  then show ?thesis
    unfolding sublist_def by blast
qed

lemma sublist_chalk_dim: "sublist m s \<Longrightarrow> sublist m (chalk_dim on s)"
  by (simp add: chalk_dim_def sublist_prepend sublist_postpend)

lemma plugin_missing_message_names_module:
  "sublist m (plugin_missing_message env m)"
  unfolding plugin_missing_message_def
  using sublist_middle [of m "''Cannot find plugin '' @ [char_of (34 :: nat)]"]
  by simp

lemma plugin_missing_message_hint:
  "sublist (''npm install -D '' @ m) (plugin_missing_message env m)"
proof -
  let ?q = "[char_of (34 :: nat)]"
  let ?hint = "''You may run '' @ ?q @ ''npm install -D '' @ m @ ?q @ '' to install it.''"
  have "sublist (''npm install -D '' @ m) ?hint"
    using sublist_middle [of "''npm install -D '' @ m" "''You may run '' @ ?q" "?q @ '' to install it.''"]
    by simp
  then have "sublist (''npm install -D '' @ m) (chalk_dim (colors env) ?hint)"
    by (rule sublist_chalk_dim)
  then have "sublist (''npm install -D '' @ m)
      ((''Cannot find plugin '' @ ?q @ m @ ?q @ '' in current directory!'' @ [char_of (10 :: nat)])
        @ chalk_dim (colors env) ?hint)"
    by (rule sublist_prepend)
  then show ?thesis
    unfolding plugin_missing_message_def by simp
qed

lemma handleLoadPluginError_cases:
  "(err_code err = JStr ''MODULE_NOT_FOUND'' \<and> sublist m (err_message err) \<longrightarrow>
      (\<exists>msg. handleLoadPluginError env m err = new_BiliError msg \<and>
             sublist m msg \<and> sublist (''npm install -D '' @ m) msg)) \<and>
   (\<not> (err_code err = JStr ''MODULE_NOT_FOUND'' \<and> sublist m (err_message err)) \<longrightarrow>
      handleLoadPluginError env m err = err)"
proof (cases "err_code err = JStr ''MODULE_NOT_FOUND'' \<and> sublist m (err_message err)")
  case True
  then have "handleLoadPluginError env m err = new_BiliError (plugin_missing_message env m)"
    by (simp add: handleLoadPluginError_def)
  with True show ?thesis
    using plugin_missing_message_names_module [of m env] plugin_missing_message_hint [of m env]
    by blast
next
  case False
  then have "handleLoadPluginError env m err = err"
    by (auto simp: handleLoadPluginError_def)
  with False show ?thesis by blast
qed

text \<open>
  C7. When loading the module of a named plugin fails with the error \<open>err\<close>, the
  loader throws what \<open>handleLoadPluginError\<close> makes of the synthesized module name
  \<open>rollup-plugin-<name>\<close> and \<open>err\<close>: if \<open>err\<close> has the code \<open>MODULE_NOT_FOUND\<close> and a
  message that mentions the module name, a new BiliError whose message carries the
  module name and the hint \<open>npm install -D <module name>\<close>; in every other case
  \<open>err\<close> itself, unchanged.
\<close>

theorem loadUserPlugin_load_failure:
  "typeof pluginName \<noteq> TObject \<Longrightarrow>
   localRequire env (''rollup-plugin-'' @ js_to_string pluginName) = Inl err \<Longrightarrow>
     loadUserPlugin env opts fname pluginName =
       Inl (handleLoadPluginError env (''rollup-plugin-'' @ js_to_string pluginName) err) \<and>
     (err_code err = JStr ''MODULE_NOT_FOUND'' \<and>
      sublist (''rollup-plugin-'' @ js_to_string pluginName) (err_message err) \<longrightarrow>
        (\<exists>msg. handleLoadPluginError env (''rollup-plugin-'' @ js_to_string pluginName) err
                 = new_BiliError msg \<and>
               sublist (''rollup-plugin-'' @ js_to_string pluginName) msg \<and>
               sublist (''npm install -D '' @ ''rollup-plugin-'' @ js_to_string pluginName) msg)) \<and>
     (\<not> (err_code err = JStr ''MODULE_NOT_FOUND'' \<and>
         sublist (''rollup-plugin-'' @ js_to_string pluginName) (err_message err)) \<longrightarrow>
        handleLoadPluginError env (''rollup-plugin-'' @ js_to_string pluginName) err = err)"
proof -
  let ?m = "''rollup-plugin-'' @ js_to_string pluginName"
  assume named: "typeof pluginName \<noteq> TObject" and failed: "localRequire env ?m = Inl err"
  have thrown: "loadUserPlugin env opts fname pluginName = Inl (handleLoadPluginError env ?m err)"
    using named failed by (simp add: loadUserPlugin_def Let_def)
  show ?thesis
    using thrown handleLoadPluginError_cases [of err ?m env] by blast
qed

theorem loadUserPlugin_load_failure_witness:
  "typeof (JStr ''missing'') \<noteq> TObject \<and>
   (\<exists>err. localRequire sample_env (''rollup-plugin-'' @ js_to_string (JStr ''missing'')) = Inl err \<and>
      err_code err = JStr ''MODULE_NOT_FOUND'' \<and>
      sublist ''rollup-plugin-missing'' (err_message err)) \<and>
   (\<exists>msg. loadUserPlugin sample_env sample_options ''index.cjs.js'' (JStr ''missing'')
            = Inl (Thrown BiliError Undefined msg) \<and>
          sublist ''rollup-plugin-missing'' msg \<and>
          sublist ''npm install -D rollup-plugin-missing'' msg)"
proof -
  let ?r = "localRequire sample_env (''rollup-plugin-'' @ js_to_string (JStr ''missing''))"
  have named: "typeof (JStr ''missing'') \<noteq> TObject"
    by simp
  have "case ?r of
          Inl err \<Rightarrow> err_code err = JStr ''MODULE_NOT_FOUND'' \<and>
                     sublist ''rollup-plugin-missing'' (err_message err)
        | Inr factory \<Rightarrow> False"
    by code_simp
  then obtain err where failed: "?r = Inl err"
    and code: "err_code err = JStr ''MODULE_NOT_FOUND''"
    and mentions: "sublist ''rollup-plugin-missing'' (err_message err)"
    by (cases ?r) auto
  from loadUserPlugin_load_failure [OF named failed, of sample_options "''index.cjs.js''"]
    code mentions
  obtain msg where "loadUserPlugin sample_env sample_options ''index.cjs.js'' (JStr ''missing'')
      = Inl (new_BiliError msg)"
    and "sublist ''rollup-plugin-missing'' msg"
    and "sublist ''npm install -D rollup-plugin-missing'' msg"
    by auto
  with named failed code mentions show ?thesis
    unfolding new_BiliError_def by blast
qed

section \<open>Properties of the build\<close>

lemma keys_set_property:
  "map fst (set_property k v kvs) =
     (if k \<in> set (map fst kvs) then map fst kvs else map fst kvs @ [k])"
  by (induction kvs) (force simp: image_iff)+

lemma length_set_property: "length (set_property k v kvs) \<le> Suc (length kvs)"
  by (induction kvs) auto

lemma js_map_length: "js_map f xs = Inr ys \<Longrightarrow> length ys = length xs"
  by (induction xs arbitrary: ys) (auto split: sum.splits)

lemma reduce_options_length:
  "reduce_options (JArr fs) res ins = Inr ts \<Longrightarrow> length ts = length res + length ins * length fs"
proof (induction ins arbitrary: res)
  case Nil
  then show ?case by simp
next
  case (Cons i ins)
  from Cons.prems obtain ys where ys: "js_map (format_task i) fs = Inr ys"
    and rest: "reduce_options (JArr fs) (res @ ys) ins = Inr ts"
    by (auto split: sum.splits)
  from Cons.IH [OF rest] js_map_length [OF ys] show ?case by simp
qed

lemma reduce_options_array:
  "reduce_options formats res (i # ins) = Inr ts \<Longrightarrow> \<exists>fs. formats = JArr fs"
  by (cases formats) (auto split: sum.splits)

lemma createConfig_options:
  "options s = options b \<Longrightarrow> createConfig env s t = createConfig env b t"
  by (simp add: createConfig_def)

lemma createConfig_output_path:
  assumes "createConfig env b t = Inr cfg"
  shows "output_path env (options b) t = Inr (file (outputOptions cfg))"
proof -
  from createConfig_Inr [OF assms] obtain outFilename
    where "output_filename (options b) t = Inr outFilename"
      and "file (outputOptions cfg) = resolveCwd env (options b) [outDir (options b), outFilename]"
    by blast
  then show ?thesis by (simp add: output_path_def)
qed

lemma run_action_options: "options (fst (run_action env w b t)) = options b"
  by (auto simp: run_action_def ongenerate_def split: sum.splits engine_outcome.splits)

lemma run_actions_options: "options (fst (run_actions env w b ts)) = options b"
proof (induction ts arbitrary: b)
  case Nil
  then show ?case by simp
next
  case (Cons t ts)
  obtain b1 r where step: "run_action env w b t = (b1, r)"
    by (cases "run_action env w b t")
  obtain b2 r' where rest: "run_actions env w b1 ts = (b2, r')"
    by (cases "run_actions env w b1 ts")
  from step run_action_options [of env w b t] have "options b1 = options b"
    by simp
  moreover from rest Cons.IH [of b1] have "options b2 = options b1"
    by simp
  ultimately show ?case using step rest by simp
qed

lemma run_action_bundles_le:
  "length (bundles (fst (run_action env w b t))) \<le> Suc (length (bundles b))"
  by (auto simp: run_action_def ongenerate_def length_set_property
      split: sum.splits engine_outcome.splits)

lemma run_actions_bundles_le:
  "length (bundles (fst (run_actions env w b ts))) \<le> length (bundles b) + length ts"
proof (induction ts arbitrary: b)
  case Nil
  then show ?case by simp
next
  case (Cons t ts)
  obtain b1 r where step: "run_action env w b t = (b1, r)"
    by (cases "run_action env w b t")
  obtain b2 r' where rest: "run_actions env w b1 ts = (b2, r')"
    by (cases "run_actions env w b1 ts")
  from step run_action_bundles_le [of env w b t] have "length (bundles b1) \<le> Suc (length (bundles b))"
    by simp
  moreover from rest Cons.IH [of b1] have "length (bundles b2) \<le> length (bundles b1) + length ts"
    by simp
  ultimately show ?case using step rest by simp
qed

text \<open>
  An action that settles without error when run on its own does so from every state
  of the same options, and records its artifact under the output path of its task.
\<close>

lemma run_action_Inr:
  assumes cfg: "createConfig env s t = Inr cfg"
    and one_shot: "\<not> truthy (props (options s) ''watch'')"
    and gen: "engine env (inputOptions cfg) (outputOptions cfg) w = Generated generated res"
  shows "run_action env w s t =
    (ongenerate env t (file (outputOptions cfg)) generated (s\<lparr>engine_calls := Suc (engine_calls s)\<rparr>), res)"
  unfolding run_action_def by (simp only: cfg one_shot gen sum.case if_False engine_outcome.case)

lemma run_action_None:
  assumes one_shot: "\<not> truthy (props (options b) ''watch'')"
    and alone: "snd (run_action env w b t) = None"
  shows "\<exists>cfg generated. createConfig env b t = Inr cfg \<and>
           engine env (inputOptions cfg) (outputOptions cfg) w = Generated generated None"
proof (cases "createConfig env b t")
  case (Inl e)
  with alone show ?thesis
    unfolding run_action_def by simp
next
  case (Inr cfg)
  show ?thesis
  proof (cases "engine env (inputOptions cfg) (outputOptions cfg) w")
    case (Rejected e)
    with alone Inr one_shot show ?thesis
      unfolding run_action_def by simp
  next
    case (Generated generated res)
    from run_action_Inr [OF Inr one_shot Generated] alone have "res = None"
      by simp
    with Inr Generated show ?thesis by blast
  qed
qed

lemma bundles_ongenerate:
  "map fst (bundles (ongenerate env t p generated s)) =
     (if p \<in> set (map fst (bundles s)) then map fst (bundles s) else map fst (bundles s) @ [p])"
  unfolding ongenerate_def by (simp add: keys_set_property del: set_map)

lemma run_action_settled:
  assumes one_shot: "\<not> truthy (props (options b) ''watch'')"
    and alone: "snd (run_action env w b t) = None"
    and same: "options s = options b"
  shows "\<exists>p. output_path env (options b) t = Inr p \<and>
           snd (run_action env w s t) = None \<and>
           map fst (bundles (fst (run_action env w s t))) =
             (if p \<in> set (map fst (bundles s)) then map fst (bundles s)
              else map fst (bundles s) @ [p])"
proof -
  from run_action_None [OF one_shot alone] obtain cfg generated
    where cfg: "createConfig env b t = Inr cfg"
      and gen: "engine env (inputOptions cfg) (outputOptions cfg) w = Generated generated None"
    by blast
  have cfg': "createConfig env s t = Inr cfg"
    using createConfig_options [OF same, of env t] cfg by simp
  have one_shot': "\<not> truthy (props (options s) ''watch'')"
    using one_shot same by simp
  have run: "run_action env w s t =
      (ongenerate env t (file (outputOptions cfg)) generated (s\<lparr>engine_calls := Suc (engine_calls s)\<rparr>), None)"
    using cfg' one_shot' gen by (rule run_action_Inr)
  have "map fst (bundles (fst (run_action env w s t))) =
      (if file (outputOptions cfg) \<in> set (map fst (bundles s)) then map fst (bundles s)
       else map fst (bundles s) @ [file (outputOptions cfg)])"
    unfolding run by (simp add: bundles_ongenerate del: set_map)
  moreover have "snd (run_action env w s t) = None"
    unfolding run by simp
  ultimately show ?thesis
    using createConfig_output_path [OF cfg] by blast
qed

lemma run_actions_settled:
  assumes one_shot: "\<not> truthy (props (options b) ''watch'')"
    and alone: "\<forall>t \<in> set ts. snd (run_action env w b t) = None"
    and same: "options s = options b"
    and keys: "distinct (map fst (bundles s))"
  shows "snd (run_actions env w s ts) = None \<and>
         distinct (map fst (bundles (fst (run_actions env w s ts)))) \<and>
         set (map fst (bundles (fst (run_actions env w s ts)))) =
           set (map fst (bundles s)) \<union> {p. \<exists>t \<in> set ts. output_path env (options b) t = Inr p}"
  using alone same keys
proof (induction ts arbitrary: s)
  case Nil
  then show ?case by simp
next
  case (Cons t ts)
  obtain s1 r where step: "run_action env w s t = (s1, r)"
    by (cases "run_action env w s t")
  obtain s2 r' where rest: "run_actions env w s1 ts = (s2, r')"
    by (cases "run_actions env w s1 ts")
  from Cons.prems have t_alone: "snd (run_action env w b t) = None"
    by simp
  from run_action_settled [OF one_shot t_alone Cons.prems(2)] step
  obtain p where p: "output_path env (options b) t = Inr p" and r: "r = None"
    and keys1: "map fst (bundles s1) =
      (if p \<in> set (map fst (bundles s)) then map fst (bundles s) else map fst (bundles s) @ [p])"
    by auto
  have same1: "options s1 = options b"
    using run_action_options [of env w s t] step Cons.prems(2) by simp
  have distinct1: "distinct (map fst (bundles s1))"
    using keys1 Cons.prems(3) by (auto split: if_splits)
  have set1: "set (map fst (bundles s1)) = insert p (set (map fst (bundles s)))"
    using keys1 by (auto split: if_splits)
  from Cons.prems(1) have "\<forall>t \<in> set ts. snd (run_action env w b t) = None"
    by simp
  from Cons.IH [OF this same1 distinct1] rest
  have r': "r' = None" and distinct2: "distinct (map fst (bundles s2))"
    and set2: "set (map fst (bundles s2)) =
      set (map fst (bundles s1)) \<union> {p. \<exists>t \<in> set ts. output_path env (options b) t = Inr p}"
    by simp_all
  have "set (map fst (bundles s2)) =
      set (map fst (bundles s)) \<union> {q. \<exists>u \<in> set (t # ts). output_path env (options b) u = Inr q}"
    using set2 set1 p by auto
  with r r' distinct2 step rest show ?case
    by simp
qed

lemma card_keys_le_tasks:
  "card {p. \<exists>t \<in> set ts. f t = Inr p} \<le> length ts"
proof -
  have "{p. \<exists>t \<in> set ts. f t = Inr p} \<subseteq> projr ` f ` set ts"
    by force
  then have "card {p. \<exists>t \<in> set ts. f t = Inr p} \<le> card (projr ` f ` set ts)"
    by (intro card_mono) auto
  also have "\<dots> \<le> card (set ts)"
    by (metis card_image_le List.finite_set finite_imageI le_trans)
  also have "\<dots> \<le> length ts"
    by (rule card_length)
  finally show ?thesis .
qed

lemma card_keys_distinct:
  assumes "\<forall>t \<in> set ts. \<exists>p. f t = Inr p"
  shows "card {p. \<exists>t \<in> set ts. f t = Inr p} = length ts \<longleftrightarrow> distinct (map f ts)"
proof -
  let ?ps = "map (\<lambda>t. projr (f t)) ts"
  have keys: "{p. \<exists>t \<in> set ts. f t = Inr p} = set ?ps"
    using assms by force
  have "map f ts = map Inr ?ps"
    using assms by auto
  then have "distinct (map f ts) = distinct ?ps"
    by (simp add: distinct_map del: map_map)
  moreover have "card (set ?ps) = length ts \<longleftrightarrow> distinct ?ps"
    by (metis card_distinct distinct_card length_map)
  ultimately show ?thesis
    by (simp only: keys)
qed

lemma bundle_after_actions:
  assumes manifest: "readPkg env (cwd (options b)) = Inr p"
    and inputs: "resolve_inputs env (options b) = Inr inputFiles" "inputFiles \<noteq> []"
    and tasks: "reduce_options (requested_formats (options b)) [] inputFiles = Inr tasks"
    and run: "run_actions env w (b\<lparr>pkg := js_or p (JObj [])\<rparr>) tasks = (b2, r)"
  shows "bundle' env w b =
           (b2, case r of
                  Some e \<Rightarrow> Inl e
                | None \<Rightarrow>
                    (case check_bundles env b2 (requested_formats (options b)) inputFiles of
                       Some e \<Rightarrow> Inl e
                     | None \<Rightarrow> Inr ()))"
  unfolding bundle'_def Let_def
  using assms by (cases r) (auto split: option.splits)

lemma bundle_success:
  assumes ok: "snd (bundle' env w b) = Inr ()"
  shows "\<exists>p inputFiles fs tasks.
           readPkg env (cwd (options b)) = Inr p \<and>
           resolve_inputs env (options b) = Inr inputFiles \<and> inputFiles \<noteq> [] \<and>
           requested_formats (options b) = JArr fs \<and>
           reduce_options (JArr fs) [] inputFiles = Inr tasks \<and>
           bundle' env w b = (fst (run_actions env w (b\<lparr>pkg := js_or p (JObj [])\<rparr>) tasks), Inr ()) \<and>
           \<not> length (bundles (fst (bundle' env w b))) < length fs * length inputFiles"
proof -
  from ok obtain p where manifest: "readPkg env (cwd (options b)) = Inr p"
    by (cases "readPkg env (cwd (options b))") (simp_all add: bundle'_def)
  from ok manifest obtain inputFiles where inputs: "resolve_inputs env (options b) = Inr inputFiles"
    by (cases "resolve_inputs env (options b)") (simp_all add: bundle'_def Let_def)
  from ok manifest inputs have ne: "inputFiles \<noteq> []"
    by (auto simp: bundle'_def Let_def)
  from ok manifest inputs ne obtain tasks
    where tasks: "reduce_options (requested_formats (options b)) [] inputFiles = Inr tasks"
    by (cases "reduce_options (requested_formats (options b)) [] inputFiles")
       (simp_all add: bundle'_def Let_def)
  from ne obtain i rest where "inputFiles = i # rest"
    by (cases inputFiles) auto
  with tasks obtain fs where fs: "requested_formats (options b) = JArr fs"
    using reduce_options_array by blast
  obtain b2 r where run: "run_actions env w (b\<lparr>pkg := js_or p (JObj [])\<rparr>) tasks = (b2, r)"
    by (cases "run_actions env w (b\<lparr>pkg := js_or p (JObj [])\<rparr>) tasks")
  note result = bundle_after_actions [OF manifest inputs ne tasks run]
  from ok result have r: "r = None"
    by (cases r) simp_all
  from ok result r have check: "check_bundles env b2 (JArr fs) inputFiles = None"
    by (cases "check_bundles env b2 (JArr fs) inputFiles") (simp_all add: fs)
  then have "\<not> length (bundles b2) < length fs * length inputFiles"
    by (auto simp: check_bundles_def split: if_splits)
  moreover from result r check fs have "bundle' env w b = (b2, Inr ())"
    by simp
  ultimately show ?thesis
    using manifest inputs ne fs tasks run by auto
qed

text \<open>
  C6. When no input option is supplied, or an empty list, the pattern handed to the
  glob resolver is \<open>src/index.js\<close>. When the glob resolver matches no file,
  \<open>bundle\<close> rejects with the BiliError \<open>No matched files to bundle.\<close> and leaves the
  instance as it was but for the manifest: no call of the engine has been made and no
  artifact recorded.
\<close>

theorem bundle_no_matched_files:
  "(props (options b) ''input'' = Undefined \<or> props (options b) ''input'' = JArr [] \<longrightarrow>
      input_patterns (options b) = JStr ''src/index.js'' \<and>
      resolve_inputs env (options b) =
        (case globby env (JStr ''src/index.js'') (cwd (options b)) of
           Inl e \<Rightarrow> Inl e
         | Inr matched \<Rightarrow> Inr (map (\<lambda>v. relativeToProcessCwd env (options b) [v]) matched))) \<and>
   (readPkg env (cwd (options b)) = Inr p \<and>
    globby env (input_patterns (options b)) (cwd (options b)) = Inr [] \<longrightarrow>
      bundle' env w b =
        (b\<lparr>pkg := js_or p (JObj [])\<rparr>, Inl (new_BiliError ''No matched files to bundle.'')) \<and>
      engine_calls (fst (bundle' env w b)) = engine_calls b \<and>
      bundles (fst (bundle' env w b)) = bundles b)"
proof -
  have patterns: "input_patterns (options b) = JStr ''src/index.js''"
    if "props (options b) ''input'' = Undefined \<or> props (options b) ''input'' = JArr []"
    using that by (auto simp: input_patterns_def js_or_def)
  have rejected: "bundle' env w b =
      (b\<lparr>pkg := js_or p (JObj [])\<rparr>, Inl (new_BiliError ''No matched files to bundle.''))"
    if "readPkg env (cwd (options b)) = Inr p"
      and "globby env (input_patterns (options b)) (cwd (options b)) = Inr []"
    using that by (simp add: bundle'_def resolve_inputs_def)
  show ?thesis
    using patterns rejected by (auto simp: resolve_inputs_def)
qed

text \<open>
  C1. Take a fresh instance, not in watch mode. If \<open>bundle\<close> succeeds, there are
  resolved input files and a list of formats, and the number of artifact records is the
  number of formats times the number of input files. If every action settles without
  error, \<open>bundle\<close> succeeds when the output paths of the tasks are pairwise different;
  when two tasks have the same output path, the number of artifact records falls short
  of that product and \<open>bundle\<close> rejects with the BiliError of the check that follows
  the actions.
\<close>

theorem bundle_artifact_count:
  assumes fresh: "bundles b = []"
    and one_shot: "\<not> truthy (props (options b) ''watch'')"
  shows "(snd (bundle' env w b) = Inr () \<longrightarrow>
           (\<exists>inputFiles fs.
              resolve_inputs env (options b) = Inr inputFiles \<and> inputFiles \<noteq> [] \<and>
              requested_formats (options b) = JArr fs \<and>
              length (bundles (fst (bundle' env w b))) = length fs * length inputFiles)) \<and>
         (\<forall>p inputFiles fs tasks.
            readPkg env (cwd (options b)) = Inr p \<and>
            resolve_inputs env (options b) = Inr inputFiles \<and> inputFiles \<noteq> [] \<and>
            requested_formats (options b) = JArr fs \<and>
            reduce_options (JArr fs) [] inputFiles = Inr tasks \<and>
            (\<forall>t \<in> set tasks. snd (run_action env w b t) = None) \<longrightarrow>
              (if distinct (map (output_path env (options b)) tasks)
               then snd (bundle' env w b) = Inr () \<and>
                    length (bundles (fst (bundle' env w b))) = length fs * length inputFiles
               else snd (bundle' env w b) =
                      Inl (new_BiliError (collision_message env (options b) inputFiles)) \<and>
                    length (bundles (fst (bundle' env w b))) < length fs * length inputFiles))"
proof (intro conjI impI allI)
  assume ok: "snd (bundle' env w b) = Inr ()"
  from bundle_success [OF ok] obtain p inputFiles fs tasks
    where inputs: "resolve_inputs env (options b) = Inr inputFiles" "inputFiles \<noteq> []"
      and fs: "requested_formats (options b) = JArr fs"
      and tasks: "reduce_options (JArr fs) [] inputFiles = Inr tasks"
      and result: "bundle' env w b = (fst (run_actions env w (b\<lparr>pkg := js_or p (JObj [])\<rparr>) tasks), Inr ())"
      and enough: "\<not> length (bundles (fst (bundle' env w b))) < length fs * length inputFiles"
    by blast
  have "length (bundles (fst (bundle' env w b))) \<le> length tasks"
    using run_actions_bundles_le [of env w "b\<lparr>pkg := js_or p (JObj [])\<rparr>" tasks] fresh result
    by simp
  moreover have "length tasks = length inputFiles * length fs"
    using reduce_options_length [OF tasks] by simp
  ultimately have "length (bundles (fst (bundle' env w b))) = length fs * length inputFiles"
    using enough by (simp add: mult.commute)
  with inputs fs show "\<exists>inputFiles fs.
      resolve_inputs env (options b) = Inr inputFiles \<and> inputFiles \<noteq> [] \<and>
      requested_formats (options b) = JArr fs \<and>
      length (bundles (fst (bundle' env w b))) = length fs * length inputFiles"
    by blast
next
  fix p inputFiles fs tasks
  assume settled: "readPkg env (cwd (options b)) = Inr p \<and>
      resolve_inputs env (options b) = Inr inputFiles \<and> inputFiles \<noteq> [] \<and>
      requested_formats (options b) = JArr fs \<and>
      reduce_options (JArr fs) [] inputFiles = Inr tasks \<and>
      (\<forall>t \<in> set tasks. snd (run_action env w b t) = None)"
  let ?b1 = "b\<lparr>pkg := js_or p (JObj [])\<rparr>"
  let ?keys = "{q. \<exists>t \<in> set tasks. output_path env (options b) t = Inr q}"
  obtain b2 r where run: "run_actions env w ?b1 tasks = (b2, r)"
    by (cases "run_actions env w ?b1 tasks")
  from settled have alone: "\<forall>t \<in> set tasks. snd (run_action env w b t) = None"
    by simp
  have "options ?b1 = options b" and "distinct (map fst (bundles ?b1))"
    using fresh by simp_all
  from run_actions_settled [OF one_shot alone this] run fresh
  have r: "r = None" and keys: "distinct (map fst (bundles b2))"
    "set (map fst (bundles b2)) = ?keys"
    by simp_all
  have count: "length (bundles b2) = card ?keys"
    using keys distinct_card [of "map fst (bundles b2)"] by simp
  have paths: "\<forall>t \<in> set tasks. \<exists>q. output_path env (options b) t = Inr q"
    using run_action_settled [OF one_shot _ refl] alone by blast
  have n: "length tasks = length fs * length inputFiles"
    using settled reduce_options_length [of fs "[]" inputFiles tasks] by (simp add: mult.commute)
  have result: "bundle' env w b =
      (b2, case check_bundles env b2 (JArr fs) inputFiles of Some e \<Rightarrow> Inl e | None \<Rightarrow> Inr ())"
    using settled run r bundle_after_actions [of env b p inputFiles tasks w b2 r] by simp
  have check: "check_bundles env b2 (JArr fs) inputFiles =
      (if card ?keys < length tasks
       then Some (new_BiliError (collision_message env (options b) inputFiles)) else None)"
    using run_actions_options [of env w ?b1 tasks] run count n
    by (simp add: check_bundles_def)
  show "if distinct (map (output_path env (options b)) tasks)
        then snd (bundle' env w b) = Inr () \<and>
             length (bundles (fst (bundle' env w b))) = length fs * length inputFiles
        else snd (bundle' env w b) =
               Inl (new_BiliError (collision_message env (options b) inputFiles)) \<and>
             length (bundles (fst (bundle' env w b))) < length fs * length inputFiles"
  proof (cases "distinct (map (output_path env (options b)) tasks)")
    case True
    then have "card ?keys = length tasks"
      using card_keys_distinct [OF paths] by simp
    with result check count n True show ?thesis by simp
  next
    case False
    then have "card ?keys \<noteq> length tasks"
      using card_keys_distinct [OF paths] by simp
    with card_keys_le_tasks [of tasks "output_path env (options b)"]
    have "card ?keys < length tasks" by simp
    with result check count n False show ?thesis by simp
  qed
qed

theorem bundle_no_matched_files_witness:
  "props (options (new_Bili (sample_options\<lparr>props := (\<lambda>key. Undefined)\<rparr>))) ''input'' = Undefined \<and>
   input_patterns (options (new_Bili (sample_options\<lparr>props := (\<lambda>key. Undefined)\<rparr>)))
     = JStr ''src/index.js'' \<and>
   readPkg sample_env (cwd (options (new_Bili (sample_options\<lparr>props := sample_props(''input'' := JStr ''lib/*.js'')\<rparr>))))
     = Inr (JObj [(''name'', JStr ''sample'')]) \<and>
   globby sample_env
     (input_patterns (options (new_Bili (sample_options\<lparr>props := sample_props(''input'' := JStr ''lib/*.js'')\<rparr>))))
     (cwd (options (new_Bili (sample_options\<lparr>props := sample_props(''input'' := JStr ''lib/*.js'')\<rparr>))))
     = Inr [] \<and>
   snd (bundle' sample_env True (new_Bili (sample_options\<lparr>props := sample_props(''input'' := JStr ''lib/*.js'')\<rparr>)))
     = Inl (Thrown BiliError Undefined ''No matched files to bundle.'') \<and>
   engine_calls (fst (bundle' sample_env True
     (new_Bili (sample_options\<lparr>props := sample_props(''input'' := JStr ''lib/*.js'')\<rparr>)))) = 0"
proof -
  let ?d = "new_Bili (sample_options\<lparr>props := (\<lambda>key. Undefined)\<rparr>)"
  let ?b = "new_Bili (sample_options\<lparr>props := sample_props(''input'' := JStr ''lib/*.js'')\<rparr>)"
  let ?p = "JObj [(''name'', JStr ''sample'')]"
  have unset: "props (options ?d) ''input'' = Undefined"
    by (simp add: new_Bili_def)
  have manifest: "readPkg sample_env (cwd (options ?b)) = Inr (JObj [(''name'', JStr ''sample'')])"
    by (simp add: sample_env_def)
  have no_match: "globby sample_env (input_patterns (options ?b)) (cwd (options ?b)) = Inr []"
    by code_simp
  have calls: "engine_calls ?b = 0"
    by (simp add: new_Bili_def)
  have default: "input_patterns (options ?d) = JStr ''src/index.js''"
    using bundle_no_matched_files [of ?d sample_env ?p True, THEN conjunct1, THEN mp,
        OF disjI1 [OF unset]]
    by (rule conjunct1)
  have both: "readPkg sample_env (cwd (options ?b)) = Inr ?p \<and>
      globby sample_env (input_patterns (options ?b)) (cwd (options ?b)) = Inr []"
    using manifest no_match by (rule conjI)
  have "bundle' sample_env True ?b =
        (?b\<lparr>pkg := js_or ?p (JObj [])\<rparr>, Inl (new_BiliError ''No matched files to bundle.'')) \<and>
      engine_calls (fst (bundle' sample_env True ?b)) = engine_calls ?b \<and>
      bundles (fst (bundle' sample_env True ?b)) = bundles ?b"
    using bundle_no_matched_files [of ?b sample_env ?p True, THEN conjunct2] both
    by (rule mp)
  then have "snd (bundle' sample_env True ?b) = Inl (Thrown BiliError Undefined ''No matched files to bundle.'')"
    and "engine_calls (fst (bundle' sample_env True ?b)) = 0"
    using calls by (simp_all add: new_BiliError_def)
  with unset default manifest no_match show ?thesis
    by (intro conjI)
qed

theorem bundle_artifact_count_witness:
  "bundles (new_Bili sample_options) = [] \<and>
   \<not> truthy (props (options (new_Bili sample_options)) ''watch'') \<and>
   resolve_inputs sample_env (options (new_Bili sample_options)) = Inr [''src/index.js'', ''src/cli.js''] \<and>
   requested_formats (options (new_Bili sample_options)) = JArr [JStr ''cjs'', JStr ''es-min''] \<and>
   snd (bundle' sample_env True (new_Bili sample_options)) = Inr () \<and>
   length (bundles (fst (bundle' sample_env True (new_Bili sample_options)))) = 2 * 2 \<and>
   \<not> distinct (map (output_path sample_env (options (new_Bili (sample_options\<lparr>filename := ''[suffix].js''\<rparr>))))
        [\<lparr>task.input = ''src/index.js'', format = ''cjs'', compress = False\<rparr>,
         \<lparr>task.input = ''src/index.js'', format = ''es'', compress = True\<rparr>,
         \<lparr>task.input = ''src/cli.js'', format = ''cjs'', compress = False\<rparr>,
         \<lparr>task.input = ''src/cli.js'', format = ''es'', compress = True\<rparr>]) \<and>
   snd (bundle' sample_env True (new_Bili (sample_options\<lparr>filename := ''[suffix].js''\<rparr>))) =
     Inl (new_BiliError (collision_message sample_env
            (options (new_Bili (sample_options\<lparr>filename := ''[suffix].js''\<rparr>)))
            [''src/index.js'', ''src/cli.js''])) \<and>
   length (bundles (fst (bundle' sample_env True (new_Bili (sample_options\<lparr>filename := ''[suffix].js''\<rparr>)))))
     < 2 * 2"
proof -
  let ?b = "new_Bili sample_options"
  let ?c = "new_Bili (sample_options\<lparr>filename := ''[suffix].js''\<rparr>)"
  let ?p = "JObj [(''name'', JStr ''sample'')]"
  let ?ins = "[''src/index.js'', ''src/cli.js'']"
  let ?fs = "[JStr ''cjs'', JStr ''es-min'']"
  let ?tasks = "[\<lparr>task.input = ''src/index.js'', format = ''cjs'', compress = False\<rparr>,
         \<lparr>task.input = ''src/index.js'', format = ''es'', compress = True\<rparr>,
         \<lparr>task.input = ''src/cli.js'', format = ''cjs'', compress = False\<rparr>,
         \<lparr>task.input = ''src/cli.js'', format = ''es'', compress = True\<rparr>]"
  have fresh: "bundles ?b = []" "bundles ?c = []"
    by (simp_all add: new_Bili_def)
  have one_shot: "\<not> truthy (props (options ?b) ''watch'')" "\<not> truthy (props (options ?c) ''watch'')"
    by (simp_all add: new_Bili_def sample_options_def sample_props_def)
  have manifest: "readPkg sample_env (cwd (options ?b)) = Inr ?p"
    "readPkg sample_env (cwd (options ?c)) = Inr ?p"
    by (simp_all add: sample_env_def)
  have inputs: "resolve_inputs sample_env (options ?b) = Inr ?ins"
    "resolve_inputs sample_env (options ?c) = Inr ?ins"
    by code_simp+
  have formats: "requested_formats (options ?b) = JArr ?fs"
    "requested_formats (options ?c) = JArr ?fs"
    by code_simp+
  have tasks: "reduce_options (JArr ?fs) [] ?ins = Inr ?tasks"
    by code_simp
  have settle: "\<forall>t \<in> set ?tasks. snd (run_action sample_env True ?b t) = None"
    "\<forall>t \<in> set ?tasks. snd (run_action sample_env True ?c t) = None"
    by code_simp+
  have paths: "distinct (map (output_path sample_env (options ?b)) ?tasks)"
    "\<not> distinct (map (output_path sample_env (options ?c)) ?tasks)"
    by code_simp+
  have "?ins \<noteq> []"
    by simp
  with manifest inputs formats tasks settle
  have b: "readPkg sample_env (cwd (options ?b)) = Inr ?p \<and>
      resolve_inputs sample_env (options ?b) = Inr ?ins \<and> ?ins \<noteq> [] \<and>
      requested_formats (options ?b) = JArr ?fs \<and>
      reduce_options (JArr ?fs) [] ?ins = Inr ?tasks \<and>
      (\<forall>t \<in> set ?tasks. snd (run_action sample_env True ?b t) = None)"
    and c: "readPkg sample_env (cwd (options ?c)) = Inr ?p \<and>
      resolve_inputs sample_env (options ?c) = Inr ?ins \<and> ?ins \<noteq> [] \<and>
      requested_formats (options ?c) = JArr ?fs \<and>
      reduce_options (JArr ?fs) [] ?ins = Inr ?tasks \<and>
      (\<forall>t \<in> set ?tasks. snd (run_action sample_env True ?c t) = None)"
    by blast+
  from bundle_artifact_count [OF fresh(1) one_shot(1), of sample_env True]
  have "if distinct (map (output_path sample_env (options ?b)) ?tasks)
        then snd (bundle' sample_env True ?b) = Inr () \<and>
             length (bundles (fst (bundle' sample_env True ?b))) = length ?fs * length ?ins
        else snd (bundle' sample_env True ?b) =
               Inl (new_BiliError (collision_message sample_env (options ?b) ?ins)) \<and>
             length (bundles (fst (bundle' sample_env True ?b))) < length ?fs * length ?ins"
    using b by blast
  then have "snd (bundle' sample_env True ?b) = Inr () \<and>
      length (bundles (fst (bundle' sample_env True ?b))) = length ?fs * length ?ins"
    by (simp only: paths(1) if_True)
  then have good: "snd (bundle' sample_env True ?b) = Inr ()"
    "length (bundles (fst (bundle' sample_env True ?b))) = 2 * 2"
    by simp_all
  from bundle_artifact_count [OF fresh(2) one_shot(2), of sample_env True]
  have "if distinct (map (output_path sample_env (options ?c)) ?tasks)
        then snd (bundle' sample_env True ?c) = Inr () \<and>
             length (bundles (fst (bundle' sample_env True ?c))) = length ?fs * length ?ins
        else snd (bundle' sample_env True ?c) =
               Inl (new_BiliError (collision_message sample_env (options ?c) ?ins)) \<and>
             length (bundles (fst (bundle' sample_env True ?c))) < length ?fs * length ?ins"
    using c by blast
  then have "snd (bundle' sample_env True ?c) =
        Inl (new_BiliError (collision_message sample_env (options ?c) ?ins)) \<and>
      length (bundles (fst (bundle' sample_env True ?c))) < length ?fs * length ?ins"
    by (simp only: paths(2) if_False)
  then have bad: "snd (bundle' sample_env True ?c) =
      Inl (new_BiliError (collision_message sample_env (options ?c) ?ins))"
    "length (bundles (fst (bundle' sample_env True ?c))) < 2 * 2"
    by simp_all
  from fresh(1) one_shot(1) inputs(1) formats(1) good paths(2) bad show ?thesis
    by blast
qed

end
